theory Spec2Isabelle
  imports Complex_Main "HOL-Library.Log_Nat" "HOL-Library.Sublist"
begin

section \<open>JavaScript values\<close>

text \<open>
  The source is JavaScript. A Number is an IEEE-754 binary64 value; only the non-negative
  ones occur in the code modelled here (block heights and what is computed from them), so
  a Number is its exact rational value, \<open>Infinity\<close> or \<open>NaN\<close>. An object is a finite map
  from property names to values; a property that is absent reads as \<open>undefined\<close>.
\<close>

datatype number = Fin rat | PosInf | NaN

datatype jsvalue = Undefined | JBool bool | JStr string | JNum number

type_synonym obj = "string \<rightharpoonup> jsvalue"

definition getProp :: "obj \<Rightarrow> string \<Rightarrow> jsvalue" where
  \<comment> \<open>\<open>o.k\<close>: the value of a property, \<open>undefined\<close> when the object has none of that name.\<close>
  "getProp ob k = (case ob k of None \<Rightarrow> Undefined | Some v \<Rightarrow> v)"

section \<open>Number arithmetic\<close>

text \<open>
  Arithmetic on Numbers is IEEE-754 binary64 arithmetic: the exact result, rounded to the
  nearest double, ties to even, and to \<open>Infinity\<close> from \<open>2^1024\<close> on. The definitions
  below cover the non-negative Numbers; negative Numbers and the negative zero do not occur
  in the code modelled.
\<close>

definition pow2 :: "int \<Rightarrow> rat" where
  "pow2 e = (if 0 \<le> e then 2 ^ nat e else 1 / 2 ^ nat (- e))"

definition binade :: "rat \<Rightarrow> int" where
  \<comment> \<open>The exponent \<open>e\<close> with \<open>2^e \<le> x < 2^(e+1)\<close>, for \<open>x > 0\<close>.\<close>
  "binade x = (if 1 \<le> x then bitlen \<lfloor>x\<rfloor> - 1 else - bitlen (\<lceil>1 / x\<rceil> - 1))"

definition roundTiesToEven :: "rat \<Rightarrow> int" where
  "roundTiesToEven x =
    (let f = \<lfloor>x\<rfloor>; r = x - of_int f
     in if r < 1 / 2 then f else if 1 / 2 < r then f + 1 else if even f then f else f + 1)"

definition ulp :: "rat \<Rightarrow> rat" where
  \<comment> \<open>The distance between neighbouring doubles around \<open>x\<close>: 53 significant bits, the
      exponent held at \<open>-1022\<close> for subnormal values.\<close>
  "ulp x = pow2 (max (binade x) (- 1022) - 52)"

definition nearest :: "rat \<Rightarrow> rat" where
  \<comment> \<open>The double nearest to \<open>x \<ge> 0\<close>, before the overflow check.\<close>
  "nearest x = (if x = 0 then 0 else of_int (roundTiesToEven (x / ulp x)) * ulp x)"

definition toNumber :: "rat \<Rightarrow> number" where
  "toNumber x = (if 2 ^ 1024 \<le> nearest x then PosInf else Fin (nearest x))"

fun plus_number :: "number \<Rightarrow> number \<Rightarrow> number" where
  "plus_number (Fin x) (Fin y) = toNumber (x + y)"
| "plus_number NaN _ = NaN"
| "plus_number _ NaN = NaN"
| "plus_number _ _ = PosInf"

fun times_number :: "number \<Rightarrow> number \<Rightarrow> number" where
  "times_number (Fin x) (Fin y) = toNumber (x * y)"
| "times_number NaN _ = NaN"
| "times_number _ NaN = NaN"
| "times_number PosInf (Fin y) = (if y = 0 then NaN else PosInf)"
| "times_number (Fin x) PosInf = (if x = 0 then NaN else PosInf)"
| "times_number PosInf PosInf = PosInf"

fun divide_number :: "number \<Rightarrow> number \<Rightarrow> number" where
  "divide_number (Fin x) (Fin y) =
    (if y = 0 then (if x = 0 then NaN else PosInf) else toNumber (x / y))"
| "divide_number NaN _ = NaN"
| "divide_number _ NaN = NaN"
| "divide_number PosInf (Fin y) = PosInf"
| "divide_number (Fin x) PosInf = Fin 0"
| "divide_number PosInf PosInf = NaN"

fun Math_floor :: "number \<Rightarrow> number" where
  "Math_floor (Fin x) = Fin (of_int \<lfloor>x\<rfloor>)"
| "Math_floor PosInf = PosInf"
| "Math_floor NaN = NaN"

text \<open>
  \<open>parseInt (v, 10)\<close> on a Number reads the Number's string form. The model takes the
  Numbers \<open>Math.floor\<close> returns, the non-negative integers. Below \<open>10^21\<close> the string is
  the decimal digits of the integer, which read back as the same Number. From \<open>10^21\<close> on
  the string is \<open>d.ddd...e+N\<close>, made of the shortest digit sequence that rounds to the
  Number (the closest one if two do), and reading stops after the first digit \<open>d\<close>.
\<close>

definition decimalLength :: "int \<Rightarrow> nat" where
  \<comment> \<open>The number of decimal digits of an integer from 1 up to the largest double.\<close>
  "decimalLength n = length (takeWhile (\<lambda>j. 10 ^ j \<le> n) [0..<400])"

definition shortestDigits :: "int \<Rightarrow> int" where
  "shortestDigits n =
    (let len = decimalLength n;
         fits = (\<lambda>k. let m = 10 ^ (len - k); lo = n div m;
                     near = (if 2 * (n - lo * m) \<le> m then [lo, lo + 1] else [lo + 1, lo])
                 in filter (\<lambda>s. nearest (of_int (s * m)) = of_int n) near)
     in case concat (map fits [1..<18]) of s # _ \<Rightarrow> s | [] \<Rightarrow> n)"

definition leadingDigit :: "int \<Rightarrow> int" where
  "leadingDigit s = s div 10 ^ (decimalLength s - 1)"

fun parseInt10 :: "number \<Rightarrow> number" where
  "parseInt10 (Fin x) =
    (let n = \<lfloor>x\<rfloor>
     in if n < 10 ^ 21 then Fin (of_int n) else Fin (of_int (leadingDigit (shortestDigits n))))"
| "parseInt10 PosInf = NaN"
| "parseInt10 NaN = NaN"

section \<open>The lnd reducer (reducers/lnd)\<close>

definition SET_SYNC_STATUS_PENDING :: string where
  "SET_SYNC_STATUS_PENDING = ''SET_SYNC_STATUS_PENDING''"
definition SET_SYNC_STATUS_WAITING :: string where
  "SET_SYNC_STATUS_WAITING = ''SET_SYNC_STATUS_WAITING''"
definition SET_SYNC_STATUS_IN_PROGRESS :: string where
  "SET_SYNC_STATUS_IN_PROGRESS = ''SET_SYNC_STATUS_IN_PROGRESS''"
definition SET_SYNC_STATUS_COMPLETE :: string where
  "SET_SYNC_STATUS_COMPLETE = ''SET_SYNC_STATUS_COMPLETE''"
definition RECEIVE_CURRENT_BLOCK_HEIGHT :: string where
  "RECEIVE_CURRENT_BLOCK_HEIGHT = ''RECEIVE_CURRENT_BLOCK_HEIGHT''"
definition RECEIVE_LND_BLOCK_HEIGHT :: string where
  "RECEIVE_LND_BLOCK_HEIGHT = ''RECEIVE_LND_BLOCK_HEIGHT''"
definition RECEIVE_LND_CFILTER_HEIGHT :: string where
  "RECEIVE_LND_CFILTER_HEIGHT = ''RECEIVE_LND_CFILTER_HEIGHT''"
definition SET_LIGHTNING_WALLET_ACTIVE :: string where
  "SET_LIGHTNING_WALLET_ACTIVE = ''SET_LIGHTNING_WALLET_ACTIVE''"

lemmas action_type_defs =
  SET_SYNC_STATUS_PENDING_def SET_SYNC_STATUS_WAITING_def SET_SYNC_STATUS_IN_PROGRESS_def
  SET_SYNC_STATUS_COMPLETE_def RECEIVE_CURRENT_BLOCK_HEIGHT_def RECEIVE_LND_BLOCK_HEIGHT_def
  RECEIVE_LND_CFILTER_HEIGHT_def SET_LIGHTNING_WALLET_ACTIVE_def

text \<open>
  An action is an object with a \<open>type\<close> property and, for the three height actions, one
  payload property. A handler copies the state (\<open>...state\<close>) and overwrites one property;
  destructuring a payload property the action lacks gives \<open>undefined\<close>.
\<close>

definition ACTION_HANDLERS :: "(string \<times> (obj \<Rightarrow> obj \<Rightarrow> obj)) list" where
  "ACTION_HANDLERS =
    [(SET_SYNC_STATUS_PENDING, \<lambda>state _. state(''syncStatus'' \<mapsto> JStr ''pending'')),
     (SET_SYNC_STATUS_WAITING, \<lambda>state _. state(''syncStatus'' \<mapsto> JStr ''waiting'')),
     (SET_SYNC_STATUS_IN_PROGRESS, \<lambda>state _. state(''syncStatus'' \<mapsto> JStr ''in-progress'')),
     (SET_SYNC_STATUS_COMPLETE, \<lambda>state _. state(''syncStatus'' \<mapsto> JStr ''complete'')),
     (RECEIVE_CURRENT_BLOCK_HEIGHT,
        \<lambda>state action. state(''blockHeight'' \<mapsto> getProp action ''blockHeight'')),
     (RECEIVE_LND_BLOCK_HEIGHT,
        \<lambda>state action. state(''lndBlockHeight'' \<mapsto> getProp action ''lndBlockHeight'')),
     (RECEIVE_LND_CFILTER_HEIGHT,
        \<lambda>state action. state(''lndCfilterHeight'' \<mapsto> getProp action ''lndCfilterHeight'')),
     (SET_LIGHTNING_WALLET_ACTIVE, \<lambda>state _. state(''lightningGrpcActive'' \<mapsto> JBool True))]"

definition initialState :: obj where
  "initialState =
    [''syncStatus'' \<mapsto> JStr ''pending'',
     ''lightningGrpcActive'' \<mapsto> JBool False,
     ''blockHeight'' \<mapsto> JNum (Fin 0),
     ''lndBlockHeight'' \<mapsto> JNum (Fin 0),
     ''lndCfilterHeight'' \<mapsto> JNum (Fin 0)]"

text \<open>
  \<open>ACTION_HANDLERS\<close> is an object literal, so \<open>ACTION_HANDLERS[action.type]\<close> finds the
  table's own eight entries and, for any other name, what the object inherits from
  \<open>Object.prototype\<close>. The reducer then calls what it found as \<open>handler(state, action)\<close>,
  with no receiver (the module is strict code, so \<open>this\<close> is \<open>undefined\<close>). Of the inherited
  members, \<open>constructor\<close> is \<open>Object\<close>, which returns its first argument when that is an
  object; \<open>toString\<close> returns \<open>[object Undefined]\<close>; the other methods convert their
  receiver to an object first and throw a \<open>TypeError\<close>; \<open>__proto__\<close> is the prototype
  itself, an object that is not callable, and calling it throws a \<open>TypeError\<close>.
\<close>

datatype js_error = TypeError

datatype inherited_member = ReturnsFirstArgument | ReturnsString string | Throws

definition Object_prototype :: "(string \<times> inherited_member) list" where
  "Object_prototype =
    [(''constructor'', ReturnsFirstArgument),
     (''toString'', ReturnsString ''[object Undefined]''),
     (''toLocaleString'', Throws),
     (''valueOf'', Throws),
     (''hasOwnProperty'', Throws),
     (''isPrototypeOf'', Throws),
     (''propertyIsEnumerable'', Throws),
     (''__defineGetter__'', Throws),
     (''__defineSetter__'', Throws),
     (''__lookupGetter__'', Throws),
     (''__lookupSetter__'', Throws),
     (''__proto__'', Throws)]"

datatype handler = Own "obj \<Rightarrow> obj \<Rightarrow> obj" | Inherited inherited_member

text \<open>
  What the reducer returns: the next state, or, from an inherited member, a string.
\<close>

datatype reduced = NextState obj | StringValue string

definition handlerFor :: "obj \<Rightarrow> handler option" where
  \<comment> \<open>\<open>ACTION_HANDLERS[action.type]\<close>. A type that is not a string is converted to a property
      name (\<open>undefined\<close>, \<open>true\<close>, \<open>false\<close> or a numeric string), none of which is found.\<close>
  "handlerFor action =
    (case getProp action ''type'' of
       JStr t \<Rightarrow>
         (case map_of ACTION_HANDLERS t of
            Some own \<Rightarrow> Some (Own own)
          | None \<Rightarrow> map_option Inherited (map_of Object_prototype t))
     | _ \<Rightarrow> None)"

definition lndReducer :: "obj option \<Rightarrow> obj \<Rightarrow> js_error + reduced" where
  \<comment> \<open>\<open>state = initialState\<close>: the default applies when the state passed is \<open>undefined\<close>.\<close>
  "lndReducer state_arg action =
    (let state = (case state_arg of None \<Rightarrow> initialState | Some s \<Rightarrow> s)
     in case handlerFor action of
          Some (Own handler) \<Rightarrow> Inr (NextState (handler state action))
        | Some (Inherited ReturnsFirstArgument) \<Rightarrow> Inr (NextState state)
        | Some (Inherited (ReturnsString v)) \<Rightarrow> Inr (StringValue v)
        | Some (Inherited Throws) \<Rightarrow> Inl TypeError
        | None \<Rightarrow> Inr (NextState state))"

text \<open>
  The selector: the result function of \<open>createSelector\<close>, applied to the three heights of
  the state. \<open>None\<close> is \<open>undefined\<close>.
\<close>

definition syncPercentage :: "number \<Rightarrow> number \<Rightarrow> number \<Rightarrow> number option" where
  "syncPercentage blockHeight lndBlockHeight lndCfilterHeight =
    (let percentage =
       Math_floor (times_number
         (divide_number (plus_number lndBlockHeight lndCfilterHeight)
                        (times_number blockHeight (Fin 2)))
         (Fin 100))
     in if percentage = PosInf \<or> percentage = NaN then None else Some (parseInt10 percentage))"

section \<open>The sync-status thunk (reducers/lnd, lndSyncStatus)\<close>

text \<open>
  \<open>lndSyncStatus (event, status)\<close> reads \<open>state.info.data.identity_pubkey\<close>, writes the
  durable wallet store, dispatches and notifies. The model takes the status, the pubkey
  (\<open>None\<close> for \<open>undefined\<close>) and the store, and returns the store with what was dispatched
  and notified, in order. The thunks of the sibling reducers are names only.
\<close>

datatype thunk = setHasSynced bool | fetchTicker | fetchBalance | fetchInfo

datatype dispatched = Plain obj | Thunk thunk

record sync_effects =
  store :: "string \<rightharpoonup> jsvalue"
  dispatches :: "dispatched list"
  notifications :: "(string \<times> string) list"

definition truthy_string :: "string option \<Rightarrow> bool" where
  \<comment> \<open>\<open>if (pubKey)\<close>: \<open>undefined\<close> and the empty string are falsy.\<close>
  "truthy_string v = (case v of None \<Rightarrow> False | Some s \<Rightarrow> s \<noteq> [])"

definition lndSyncStatus ::
  "string \<Rightarrow> string option \<Rightarrow> (string \<rightharpoonup> jsvalue) \<Rightarrow> sync_effects" where
  "lndSyncStatus status pubKey wallet =
    (let notifTitle = ''Lightning Node Synced'';
         notifBody = ''Visa who? You're your own payment processor now!'';
         wallet' = (if truthy_string pubKey
                    then wallet(the pubKey @ ''.hasSynced'' \<mapsto> JBool True) else wallet)
     in if status = ''waiting'' then
          \<lparr>store = wallet',
           dispatches = [Plain [''type'' \<mapsto> JStr SET_SYNC_STATUS_WAITING]],
           notifications = []\<rparr>
        else if status = ''in-progress'' then
          \<lparr>store = wallet',
           dispatches = [Plain [''type'' \<mapsto> JStr SET_SYNC_STATUS_IN_PROGRESS]],
           notifications = []\<rparr>
        else if status = ''complete'' then
          \<lparr>store = wallet',
           dispatches = [Plain [''type'' \<mapsto> JStr SET_SYNC_STATUS_COMPLETE],
                         Thunk (setHasSynced True), Thunk fetchTicker, Thunk fetchBalance,
                         Thunk fetchInfo],
           notifications = [(notifTitle, notifBody)]\<rparr>
        else
          \<lparr>store = wallet',
           dispatches = [Plain [''type'' \<mapsto> JStr SET_SYNC_STATUS_PENDING]],
           notifications = []\<rparr>)"

fun reduceDispatched :: "obj \<Rightarrow> dispatched list \<Rightarrow> js_error + reduced" where
  \<comment> \<open>The plain actions of a dispatch sequence reach the reducer, in order, each with the
      state the one before returned; the sequence ends where the reducer throws or returns
      something that is not a state.\<close>
  "reduceDispatched state [] = Inr (NextState state)"
| "reduceDispatched state (Plain action # ds) =
    (case lndReducer (Some state) action of
       Inr (NextState state') \<Rightarrow> reduceDispatched state' ds
     | other \<Rightarrow> other)"
| "reduceDispatched state (Thunk _ # ds) = reduceDispatched state ds"

section \<open>The preload bridge (electron/preload.js, openExternal)\<close>

definition WHITELISTED_DOMAINS :: "string list" where
  "WHITELISTED_DOMAINS =
    [''blockstream.info'',
     ''coinfaucet.eu'',
     ''insight.litecore.io'',
     ''live.blockcypher.com'',
     ''ln-zap.github.io'',
     ''testnet.litecore.io'',
     ''testnet.smartbit.com.au'',
     ''litecore.io'',
     ''www.smartbit.com.au'']"

text \<open>
  \<open>url.parse\<close> is Node's; the model takes it as the parameter \<open>hostnameOf\<close>, which gives
  \<open>url.parse(urlString).hostname\<close> (\<open>None\<close> for \<open>null\<close>). The result is the list of URLs
  handed to \<open>shell.openExternal\<close>.
\<close>

definition openExternal :: "(string \<Rightarrow> string option) \<Rightarrow> string \<Rightarrow> string list" where
  "openExternal hostnameOf urlString =
    (case hostnameOf urlString of
       None \<Rightarrow> []
     | Some hostname \<Rightarrow>
         if hostname = [] then []
         else if hostname \<in> set WHITELISTED_DOMAINS then [urlString]
         else [])"

section \<open>The state machine mixin (javascript-state-machine, as the source configures it)\<close>

text \<open>
  \<open>StateMachine.factory (cls, {init, transitions})\<close> gives every instance a read-only
  \<open>state\<close> and one method per transition name. Firing a transition looks up the target
  for the current state (a wildcard source \<open>*\<close> matches every state); when there is none the
  library's \<open>onInvalidTransition\<close> throws. Otherwise the \<open>onBefore<Transition>\<close> callback
  runs; when the promise it returns rejects, the transition is abandoned with the state
  unchanged and the rejection is passed on; else the state becomes the target. Assigning
  to \<open>state\<close> throws.

  From the moment a transition is fired until its callbacks have settled the library holds
  a \<open>pending\<close> flag, and \<open>state\<close> still reads the source state. While the flag is set,
  \<open>can\<close> is false and firing a transition that the current state allows calls
  \<open>onPendingTransition\<close>, which throws; the check for an invalid transition comes first.
\<close>

record fsm_transition =
  tr_name :: string
  tr_from :: string
  tr_to :: string

record fsm_config =
  init :: "string option"
  transitions :: "fsm_transition list"

record fsm_instance =
  state :: string

datatype 'e fsm_error = InvalidTransition | PendingTransition | UseTransitions | Rejected 'e

definition wildcard :: string where
  "wildcard = ''*''"

definition initialFsmState :: "fsm_config \<Rightarrow> string" where
  \<comment> \<open>An instance starts in \<open>none\<close>; with \<open>init\<close> the factory fires \<open>none \<rightarrow> init\<close> in the constructor.\<close>
  "initialFsmState cfg = (case init cfg of None \<Rightarrow> ''none'' | Some s \<Rightarrow> s)"

definition fsmStates :: "fsm_config \<Rightarrow> string list" where
  \<comment> \<open>\<open>allStates()\<close>: \<open>none\<close>, the initial state and every source and target named.\<close>
  "fsmStates cfg =
    rev (remdups (rev (''none'' # (case init cfg of None \<Rightarrow> [] | Some s \<Rightarrow> [s]) @
      concat (map (\<lambda>t. (if tr_from t = wildcard then [] else [tr_from t]) @ [tr_to t])
                  (transitions cfg)))))"

definition seek :: "fsm_config \<Rightarrow> string \<Rightarrow> string \<Rightarrow> string option" where
  \<comment> \<open>\<open>map[state][transition] || map[wildcard][transition]\<close>; a later entry overwrites an earlier.\<close>
  "seek cfg st nm =
    (let table = map_of (map (\<lambda>t. ((tr_from t, tr_name t), tr_to t)) (rev (transitions cfg)))
     in case table (st, nm) of Some target \<Rightarrow> Some target | None \<Rightarrow> table (wildcard, nm))"

definition can :: "fsm_config \<Rightarrow> 'a fsm_instance_scheme \<Rightarrow> string \<Rightarrow> bool" where
  \<comment> \<open>\<open>!this.isPending() && !!this.seek(transition)\<close> on an instance with no transition
      under way, where \<open>isPending()\<close> is false\<close>
  "can cfg inst nm = (seek cfg (state inst) nm \<noteq> None)"

definition transit :: "fsm_config \<Rightarrow> string \<Rightarrow> bool \<Rightarrow> string \<Rightarrow> 'e fsm_error + string" where
  \<comment> \<open>The head of the library's \<open>transit\<close>, for the state, the \<open>pending\<close> flag and the name of
      the transition fired: the target when the transition may start.\<close>
  "transit cfg st pending nm =
    (case seek cfg st nm of
       None \<Rightarrow> Inl InvalidTransition
     | Some target \<Rightarrow> if pending then Inl PendingTransition else Inr target)"

definition setState :: "'a fsm_instance_scheme \<Rightarrow> string \<Rightarrow> 'e fsm_error + 'a fsm_instance_scheme" where
  \<comment> \<open>\<open>instance.state = s\<close>: the property's setter throws.\<close>
  "setState inst s = Inl UseTransitions"

section \<open>The wallet unlocker connector (lib/lnd/walletUnlocker.js)\<close>

datatype channel = Open | Closed

record walletUnlocker = fsm_instance +
  service :: "channel option"

record lndConfig =
  rpcProtoPath :: string
  host :: string
  cert :: string
  macaroon :: string

text \<open>
  What \<open>onBeforeConnect\<close> does to the outside, in the order it does it. \<open>getDeadline\<close> is
  imported from \<open>./util\<close>; the model takes it as a parameter.
\<close>

datatype 'd effect =
    ValidateHost string
  | LoadProto string
  | LoadPackageDefinition
  | CreateSslCreds string
  | CreateMacaroonCreds string
  | CombineChannelCredentials
  | NewClient string
  | WaitForReady 'd
  | CloseChannel

text \<open>
  How each awaited call ends: \<open>None\<close> when it succeeds, \<open>Some e\<close> when it rejects, throws or
  calls back with the error \<open>e\<close>. The two credential loaders run under \<open>Promise.all\<close>, which
  rejects with whichever rejection comes first.
\<close>

record 'e connect_outcomes =
  validateHost_r :: "'e option"
  loadSync_r :: "'e option"
  createSslCreds_r :: "'e option"
  createMacaroonCreds_r :: "'e option"
  sslRejectsFirst :: bool
  waitForReady_r :: "'e option"

definition promiseAll2 :: "'e option \<Rightarrow> 'e option \<Rightarrow> bool \<Rightarrow> 'e option" where
  "promiseAll2 a b aFirst =
    (case (a, b) of
       (None, None) \<Rightarrow> None
     | (Some e, None) \<Rightarrow> Some e
     | (None, Some e) \<Rightarrow> Some e
     | (Some e1, Some e2) \<Rightarrow> Some (if aFirst then e1 else e2))"

definition onBeforeConnect ::
  "(nat \<Rightarrow> 'd) \<Rightarrow> lndConfig \<Rightarrow> 'e connect_outcomes \<Rightarrow> walletUnlocker
    \<Rightarrow> ('e + unit) \<times> 'd effect list \<times> walletUnlocker" where
  "onBeforeConnect getDeadline cfg out w =
    (case validateHost_r out of
       Some e \<Rightarrow> (Inl e, [ValidateHost (host cfg)], w)
     | None \<Rightarrow>
        (case loadSync_r out of
           Some e \<Rightarrow> (Inl e, [ValidateHost (host cfg), LoadProto (rpcProtoPath cfg)], w)
         | None \<Rightarrow>
            (case promiseAll2 (createSslCreds_r out) (createMacaroonCreds_r out)
                    (sslRejectsFirst out) of
               Some e \<Rightarrow>
                 (Inl e,
                  [ValidateHost (host cfg), LoadProto (rpcProtoPath cfg), LoadPackageDefinition,
                   CreateSslCreds (cert cfg), CreateMacaroonCreds (macaroon cfg)], w)
             | None \<Rightarrow>
                (case waitForReady_r out of
                   Some err \<Rightarrow>
                     (Inl err,
                      [ValidateHost (host cfg), LoadProto (rpcProtoPath cfg),
                       LoadPackageDefinition, CreateSslCreds (cert cfg),
                       CreateMacaroonCreds (macaroon cfg), CombineChannelCredentials,
                       NewClient (host cfg), WaitForReady (getDeadline 2), CloseChannel],
                      w\<lparr>service := Some Closed\<rparr>)
                 | None \<Rightarrow>
                     (Inr (),
                      [ValidateHost (host cfg), LoadProto (rpcProtoPath cfg),
                       LoadPackageDefinition, CreateSslCreds (cert cfg),
                       CreateMacaroonCreds (macaroon cfg), CombineChannelCredentials,
                       NewClient (host cfg), WaitForReady (getDeadline 2)],
                      w\<lparr>service := Some Open\<rparr>)))))"

definition onBeforeDisconnect :: "walletUnlocker \<Rightarrow> 'd effect list \<times> walletUnlocker" where
  "onBeforeDisconnect w =
    (if service w \<noteq> None then ([CloseChannel], w\<lparr>service := Some Closed\<rparr>) else ([], w))"

definition walletUnlockerFsm :: fsm_config where
  "walletUnlockerFsm =
    \<lparr>init = Some ''ready'',
     transitions =
       [\<lparr>tr_name = ''connect'', tr_from = ''ready'', tr_to = ''connected''\<rparr>,
        \<lparr>tr_name = ''disconnect'', tr_from = ''connected'', tr_to = ''ready''\<rparr>]\<rparr>"

definition newWalletUnlocker :: walletUnlocker where
  \<comment> \<open>The constructor: \<open>this.service = null\<close>, then \<open>this._fsm()\<close>.\<close>
  "newWalletUnlocker = \<lparr>state = initialFsmState walletUnlockerFsm, service = None\<rparr>"

definition connect ::
  "(nat \<Rightarrow> 'd) \<Rightarrow> lndConfig \<Rightarrow> 'e connect_outcomes \<Rightarrow> walletUnlocker
    \<Rightarrow> ('e fsm_error + unit) \<times> 'd effect list \<times> walletUnlocker" where
  \<comment> \<open>\<open>await connect()\<close> on a connector with no transition under way: the call and its
      settlement taken together (they are apart in the next subsection).\<close>
  "connect getDeadline cfg out w =
    (case seek walletUnlockerFsm (state w) ''connect'' of
       None \<Rightarrow> (Inl InvalidTransition, [], w)
     | Some target \<Rightarrow>
        (case onBeforeConnect getDeadline cfg out w of
           (Inl e, effects, w') \<Rightarrow> (Inl (Rejected e), effects, w')
         | (Inr _, effects, w') \<Rightarrow> (Inr (), effects, w'\<lparr>state := target\<rparr>)))"

definition disconnect ::
  "walletUnlocker \<Rightarrow> ('e fsm_error + unit) \<times> 'd effect list \<times> walletUnlocker" where
  \<comment> \<open>\<open>disconnect()\<close> on a connector with no transition under way.\<close>
  "disconnect w =
    (case seek walletUnlockerFsm (state w) ''disconnect'' of
       None \<Rightarrow> (Inl InvalidTransition, [], w)
     | Some target \<Rightarrow>
        (case onBeforeDisconnect w of
           (effects, w') \<Rightarrow> (Inr (), effects, w'\<lparr>state := target\<rparr>)))"

subsection \<open>A connect under way\<close>

text \<open>
  \<open>connect\<close> and \<open>disconnect\<close> above are a call together with its settlement, on a
  connector with no transition under way. \<open>onBeforeConnect\<close> is \<open>async\<close>: a call of
  \<open>connect()\<close> that the library accepts returns a promise and leaves the \<open>pending\<close> flag set
  until \<open>onBeforeConnect\<close> settles, and other calls can arrive in between.
  \<open>onBeforeDisconnect\<close> returns no promise, so a \<open>disconnect()\<close> is over, flag cleared, when
  the call returns. A connector with its flag: \<open>inFlight\<close> is the target of the transition
  under way, \<open>None\<close> when the flag is clear.
\<close>

record machine =
  unlocker :: walletUnlocker
  inFlight :: "string option"

definition newMachine :: machine where
  "newMachine = \<lparr>unlocker = newWalletUnlocker, inFlight = None\<rparr>"

definition isPending :: "machine \<Rightarrow> bool" where
  "isPending m = (inFlight m \<noteq> None)"

definition canFire :: "machine \<Rightarrow> string \<Rightarrow> bool" where
  \<comment> \<open>\<open>can\<close>: \<open>!this.isPending() && !!this.seek(transition)\<close>\<close>
  "canFire m nm = (\<not> isPending m \<and> seek walletUnlockerFsm (state (unlocker m)) nm \<noteq> None)"

definition connectBegin :: "machine \<Rightarrow> ('e fsm_error + unit) \<times> machine" where
  \<comment> \<open>The call \<open>connect()\<close>: it throws, or sets the flag and returns the promise.\<close>
  "connectBegin m =
    (case transit walletUnlockerFsm (state (unlocker m)) (isPending m) ''connect'' of
       Inl err \<Rightarrow> (Inl err, m)
     | Inr target \<Rightarrow> (Inr (), m\<lparr>inFlight := Some target\<rparr>))"

definition connectSettle ::
  "(nat \<Rightarrow> 'd) \<Rightarrow> lndConfig \<Rightarrow> 'e connect_outcomes \<Rightarrow> machine
    \<Rightarrow> ('e fsm_error + unit) \<times> 'd effect list \<times> machine" where
  \<comment> \<open>\<open>onBeforeConnect\<close> settles: on a rejection \<open>failTransit\<close> clears the flag and passes
      the rejection on; else \<open>doTransit\<close> assigns the target and \<open>endTransit\<close> clears the flag.
      With no connect under way there is nothing to settle.\<close>
  "connectSettle getDeadline cfg out m =
    (case inFlight m of
       None \<Rightarrow> (Inr (), [], m)
     | Some target \<Rightarrow>
        (case onBeforeConnect getDeadline cfg out (unlocker m) of
           (Inl e, effects, w') \<Rightarrow> (Inl (Rejected e), effects, \<lparr>unlocker = w', inFlight = None\<rparr>)
         | (Inr _, effects, w') \<Rightarrow>
             (Inr (), effects, \<lparr>unlocker = w'\<lparr>state := target\<rparr>, inFlight = None\<rparr>)))"

definition disconnectNow ::
  "machine \<Rightarrow> ('e fsm_error + unit) \<times> 'd effect list \<times> machine" where
  \<comment> \<open>The call \<open>disconnect()\<close>, from the check to \<open>endTransit\<close>.\<close>
  "disconnectNow m =
    (case transit walletUnlockerFsm (state (unlocker m)) (isPending m) ''disconnect'' of
       Inl err \<Rightarrow> (Inl err, [], m)
     | Inr target \<Rightarrow>
        (case onBeforeDisconnect (unlocker m) of
           (effects, w') \<Rightarrow> (Inr (), effects, \<lparr>unlocker = w'\<lparr>state := target\<rparr>, inFlight = None\<rparr>)))"

section \<open>The controller (ZapController)\<close>

definition zapControllerFsm :: fsm_config where
  "zapControllerFsm =
    \<lparr>init = None,
     transitions =
       [\<lparr>tr_name = ''startOnboarding'', tr_from = ''*'', tr_to = ''onboarding''\<rparr>,
        \<lparr>tr_name = ''startLnd'', tr_from = ''onboarding'', tr_to = ''running''\<rparr>,
        \<lparr>tr_name = ''connectLnd'', tr_from = ''onboarding'', tr_to = ''connected''\<rparr>,
        \<lparr>tr_name = ''terminate'', tr_from = ''*'', tr_to = ''terminated''\<rparr>]\<rparr>"

text \<open>
  An error as the \<open>catch\<close> of \<open>onBeforeConnectLnd\<close> reads it: \<open>code\<close> is a string (the
  \<open>LND_GRPC_*\<close> codes of the connector), a number (a gRPC status) or absent; \<open>details\<close> is
  set on gRPC errors only.
\<close>

datatype err_code = CodeStr string | CodeNum int | NoCode

record grpc_error =
  code :: err_code
  message :: string
  details :: "string option"

record onboarding_errors =
  err_host :: "string option"
  err_cert :: "string option"
  err_macaroon :: "string option"

datatype payload = NoData | Errors onboarding_errors

text \<open>
  The fields of the controller the modelled methods read or write: the state of its state
  machine, whether a main window is there, the messages sent to the renderer (oldest
  first), the connection type of \<open>lndConfig\<close>, \<open>this.lightning\<close> (\<open>None\<close> when unset, else
  whether \<open>can('terminate')\<close> holds) and whether \<open>this.neutrino\<close> is set.
\<close>

record zapController = fsm_instance +
  mainWindow :: bool
  sent :: "(string \<times> payload) list"
  lndConfig_type :: string
  lightning :: "bool option"
  neutrino :: bool

definition sendMessage :: "zapController \<Rightarrow> string \<Rightarrow> payload \<Rightarrow> zapController" where
  "sendMessage c msg data = (if mainWindow c then c\<lparr>sent := sent c @ [(msg, data)]\<rparr> else c)"

definition or_else :: "string option \<Rightarrow> string \<Rightarrow> string" where
  \<comment> \<open>\<open>a || b\<close> on strings: \<open>undefined\<close> and the empty string are falsy.\<close>
  "or_else a b = (case a of None \<Rightarrow> b | Some s \<Rightarrow> if s = [] then b else s)"

definition connectErrors :: "grpc_error \<Rightarrow> onboarding_errors" where
  \<comment> \<open>The body of the \<open>catch\<close>, statement by statement, up to \<open>sendMessage\<close>.\<close>
  "connectErrors e =
    (let errors = \<lparr>err_host = None, err_cert = None, err_macaroon = None\<rparr>;
         errors = (if code e = CodeStr ''LND_GRPC_HOST_ERROR''
                   then errors\<lparr>err_host := Some (message e)\<rparr> else errors);
         errors = (if code e = CodeStr ''LND_GRPC_CERT_ERROR''
                   then errors\<lparr>err_cert := Some (message e)\<rparr>
                   else if code e = CodeStr ''LND_GRPC_MACAROON_ERROR''
                   then errors\<lparr>err_macaroon := Some (message e)\<rparr> else errors);
         errors = (if code e = CodeNum 12
                   then errors\<lparr>err_host := Some
                     ''Unable to connect to host. Please ensure wallet is unlocked before connecting.''\<rparr>
                   else errors\<lparr>err_host := Some
                     (''Unable to connect to host: '' @ or_else (details e) (message e))\<rparr>)
     in errors)"

text \<open>
  \<open>Lightning\<close> (\<open>../lnd/lightning\<close>) is imported; of the connector that
  \<open>startLightningWallet\<close> creates the model takes two parameters, how its \<open>connect()\<close>
  ends (\<open>None\<close>: resolved) and whether it \<open>can('terminate')\<close> afterwards.
\<close>

definition startLightningWallet ::
  "grpc_error option \<Rightarrow> bool \<Rightarrow> zapController \<Rightarrow> (grpc_error + unit) \<times> zapController" where
  "startLightningWallet outcome canTerminate c =
    (let c = c\<lparr>lightning := Some canTerminate\<rparr>
     in case outcome of
          Some err \<Rightarrow> (Inl err, c)
        | None \<Rightarrow> (Inr (), sendMessage c ''lightningGrpcActive'' NoData))"

definition onBeforeConnectLnd ::
  "grpc_error option \<Rightarrow> bool \<Rightarrow> zapController \<Rightarrow> (grpc_error + unit) \<times> zapController" where
  "onBeforeConnectLnd outcome canTerminate c =
    (case startLightningWallet outcome canTerminate c of
       (Inr _, c') \<Rightarrow> (Inr (), sendMessage c' ''finishOnboarding'' NoData)
     | (Inl e, c') \<Rightarrow> (Inl e, sendMessage c' ''startLndError'' (Errors (connectErrors e))))"

definition connectLnd ::
  "grpc_error option \<Rightarrow> bool \<Rightarrow> zapController
    \<Rightarrow> (grpc_error fsm_error + unit) \<times> zapController" where
  "connectLnd outcome canTerminate c =
    (case seek zapControllerFsm (state c) ''connectLnd'' of
       None \<Rightarrow> (Inl InvalidTransition, c)
     | Some target \<Rightarrow>
        (case onBeforeConnectLnd outcome canTerminate c of
           (Inl e, c') \<Rightarrow> (Inl (Rejected e), c')
         | (Inr _, c') \<Rightarrow> (Inr (), c'\<lparr>state := target\<rparr>)))"

subsection \<open>shutdownNeutrino\<close>

text \<open>
  The promise \<open>shutdownNeutrino\<close> returns, with what the call has set in motion: the
  timer of \<open>setTimeout\<close> (its delay in milliseconds while it is armed), the \<open>close\<close> listener
  registered with \<open>once\<close>, the outstanding \<open>lightning.terminate()\<close>, and the numbers of
  \<open>neutrino.kill()\<close> and \<open>lightning.terminate()\<close> calls made so far. Calling \<open>resolve\<close> on
  a promise that is settled does nothing.
\<close>

datatype promise = Pending | Resolved | RejectedTypeError

record shutdown =
  promise :: promise
  shutdownTimeout :: "nat option"
  closeHandler :: bool
  terminating :: bool
  kills :: nat
  terminateCalls :: nat

definition resolve :: "shutdown \<Rightarrow> shutdown" where
  "resolve s = (if promise s = Pending then s\<lparr>promise := Resolved\<rparr> else s)"

definition shutdownNeutrino :: "zapController \<Rightarrow> shutdown" where
  "shutdownNeutrino c =
    (if lndConfig_type c \<noteq> ''local'' then
       \<lparr>promise = Resolved, shutdownTimeout = None, closeHandler = False,
        terminating = False, kills = 0, terminateCalls = 0\<rparr>
     else if lightning c = Some True then
       (if neutrino c then
          \<lparr>promise = Pending, shutdownTimeout = Some (1000 * 10), closeHandler = True,
           terminating = True, kills = 0, terminateCalls = 1\<rparr>
        else
          \<lparr>promise = RejectedTypeError, shutdownTimeout = Some (1000 * 10),
           closeHandler = False, terminating = False, kills = 0, terminateCalls = 0\<rparr>)
     else if neutrino c then
       \<lparr>promise = Resolved, shutdownTimeout = None, closeHandler = False,
        terminating = False, kills = 1, terminateCalls = 0\<rparr>
     else
       \<lparr>promise = Resolved, shutdownTimeout = None, closeHandler = False,
        terminating = False, kills = 0, terminateCalls = 0\<rparr>)"

text \<open>
  What can happen afterwards: the timer runs out, the node process emits \<open>close\<close>, or the
  \<open>terminate()\<close> call settles. An event whose callback is no longer registered changes
  nothing.
\<close>

datatype event = TimeoutElapsed | NeutrinoClose | TerminateResolved | TerminateRejected

fun step :: "zapController \<Rightarrow> shutdown \<Rightarrow> event \<Rightarrow> shutdown" where
  "step c s TimeoutElapsed =
    (if shutdownTimeout s = None then s
     else if neutrino c then
       resolve (s\<lparr>shutdownTimeout := None, closeHandler := False, kills := kills s + 1\<rparr>)
     else s\<lparr>shutdownTimeout := None\<rparr>)"
| "step c s NeutrinoClose =
    (if closeHandler s then resolve (s\<lparr>closeHandler := False, shutdownTimeout := None\<rparr>)
     else s)"
| "step c s TerminateResolved =
    (if terminating s then s\<lparr>terminating := False\<rparr> else s)"
| "step c s TerminateRejected =
    (if terminating s then
       (if neutrino c then resolve (s\<lparr>terminating := False, kills := kills s + 1\<rparr>)
        else s\<lparr>terminating := False\<rparr>)
     else s)"

fun run :: "zapController \<Rightarrow> shutdown \<Rightarrow> event list \<Rightarrow> shutdown" where
  "run c s [] = s"
| "run c s (e # es) = run c (step c s e) es"

section \<open>Vocabulary of the properties\<close>

definition handled_types :: "string list" where
  "handled_types = map fst ACTION_HANDLERS"



definition written_property :: "(string \<times> string) list" where
  \<comment> \<open>For each handled action type, the one property of the state its handler assigns.\<close>
  "written_property =
    [(SET_SYNC_STATUS_PENDING, ''syncStatus''),
     (SET_SYNC_STATUS_WAITING, ''syncStatus''),
     (SET_SYNC_STATUS_IN_PROGRESS, ''syncStatus''),
     (SET_SYNC_STATUS_COMPLETE, ''syncStatus''),
     (RECEIVE_CURRENT_BLOCK_HEIGHT, ''blockHeight''),
     (RECEIVE_LND_BLOCK_HEIGHT, ''lndBlockHeight''),
     (RECEIVE_LND_CFILTER_HEIGHT, ''lndCfilterHeight''),
     (SET_LIGHTNING_WALLET_ACTIVE, ''lightningGrpcActive'')]"



text \<open>
  The phase of a connector, in the specification's names, read from the \<open>state\<close> property
  and the \<open>pending\<close> flag: \<open>state\<close> is \<open>ready\<close> while the connector is not connected
  (the specification's idle, and connecting while a connect is under way) and \<open>connected\<close>
  once it is (the specification's ready).
\<close>

definition phase :: "machine \<Rightarrow> string" where
  "phase m =
    (if state (unlocker m) = ''ready'' then (if isPending m then ''connecting'' else ''idle'')
     else if state (unlocker m) = ''connected''
       then (if isPending m then ''disconnecting'' else ''ready'')
     else state (unlocker m))"

text \<open>
  What reaches a connector from outside: a call of \<open>connect()\<close>, the settlement of the
  connect under way (with how its awaited calls ended), a call of \<open>disconnect()\<close>, and an
  assignment to \<open>state\<close>. A history is a list of these, applied to a new connector.
\<close>

datatype 'e stimulus =
    CallConnect
  | Settle "'e connect_outcomes"
  | CallDisconnect
  | AssignState string

definition react ::
  "(nat \<Rightarrow> 'd) \<Rightarrow> lndConfig \<Rightarrow> machine \<Rightarrow> 'e stimulus
    \<Rightarrow> ('e fsm_error + unit) \<times> 'd effect list \<times> machine" where
  "react getDeadline cfg m x =
    (case x of
       CallConnect \<Rightarrow> (case connectBegin m of (r, m') \<Rightarrow> (r, [], m'))
     | Settle out \<Rightarrow> connectSettle getDeadline cfg out m
     | CallDisconnect \<Rightarrow> disconnectNow m
     | AssignState s \<Rightarrow>
         (case setState (unlocker m) s of
            Inl err \<Rightarrow> (Inl err, [], m)
          | Inr w' \<Rightarrow> (Inr (), [], m\<lparr>unlocker := w'\<rparr>)))"

definition runHistory ::
  "(nat \<Rightarrow> 'd) \<Rightarrow> lndConfig \<Rightarrow> 'e stimulus list \<Rightarrow> machine" where
  "runHistory getDeadline cfg h =
    foldl (\<lambda>m x. snd (snd (react getDeadline cfg m x
                              :: ('e fsm_error + unit) \<times> 'd effect list \<times> machine)))
      newMachine h"

text \<open>
  A history of one connector in which every call is followed by its settlement: the
  transitions fired on it since its construction, each \<open>connect\<close> with how its awaited
  calls ended.
\<close>

datatype 'e connector_op = Connect "'e connect_outcomes" | Disconnect

definition applyOp ::
  "(nat \<Rightarrow> 'd) \<Rightarrow> lndConfig \<Rightarrow> walletUnlocker \<Rightarrow> 'e connector_op \<Rightarrow> walletUnlocker" where
  "applyOp getDeadline cfg w op =
    (case op of
       Connect out \<Rightarrow> snd (snd (connect getDeadline cfg out w))
     | Disconnect \<Rightarrow>
         snd (snd (disconnect w :: ('e fsm_error + unit) \<times> 'd effect list \<times> walletUnlocker)))"

definition runOps ::
  "(nat \<Rightarrow> 'd) \<Rightarrow> lndConfig \<Rightarrow> 'e connector_op list \<Rightarrow> walletUnlocker" where
  "runOps getDeadline cfg ops = foldl (applyOp getDeadline cfg) newWalletUnlocker ops"

definition succeeding :: "'e connect_outcomes" where
  "succeeding =
    \<lparr>validateHost_r = None, loadSync_r = None, createSslCreds_r = None,
     createMacaroonCreds_r = None, sslRejectsFirst = True, waitForReady_r = None\<rparr>"

definition connectSequence :: "(nat \<Rightarrow> 'd) \<Rightarrow> lndConfig \<Rightarrow> 'd effect list" where
  \<comment> \<open>The steps of a \<open>connect()\<close> that goes through, in order.\<close>
  "connectSequence getDeadline cfg =
    [ValidateHost (host cfg), LoadProto (rpcProtoPath cfg), LoadPackageDefinition,
     CreateSslCreds (cert cfg), CreateMacaroonCreds (macaroon cfg), CombineChannelCredentials,
     NewClient (host cfg), WaitForReady (getDeadline 2)]"

text \<open>Concrete inputs for the examples.\<close>

definition exampleConfig :: lndConfig where
  "exampleConfig =
    \<lparr>rpcProtoPath = ''rpc.proto'', host = ''localhost:10009'', cert = ''tls.cert'',
     macaroon = ''admin.macaroon''\<rparr>"

definition seconds :: "nat \<Rightarrow> nat" where
  "seconds n = n"

definition timedOut :: "string connect_outcomes" where
  "timedOut = succeeding\<lparr>waitForReady_r := Some ''Failed to connect before the deadline''\<rparr>"

definition hostUnreachable :: grpc_error where
  "hostUnreachable =
    \<lparr>code = CodeStr ''LND_GRPC_HOST_ERROR'',
     message = ''10.0.0.1:10009 is not reachable'',
     details = None\<rparr>"

definition onboardingController :: zapController where
  "onboardingController =
    \<lparr>state = ''onboarding'', mainWindow = True, sent = [], lndConfig_type = ''custom'',
     lightning = None, neutrino = False\<rparr>"

definition runningLocal :: zapController where
  "runningLocal =
    \<lparr>state = ''running'', mainWindow = True, sent = [], lndConfig_type = ''local'',
     lightning = Some True, neutrino = True\<rparr>"

definition runningRemoteConfig :: zapController where
  "runningRemoteConfig = runningLocal\<lparr>lndConfig_type := ''custom''\<rparr>"

text \<open>
  A shutdown that is still waiting: the promise is pending, the ten-second timer is armed
  and the \<open>close\<close> listener is registered.
\<close>

definition waiting :: "shutdown \<Rightarrow> bool" where
  "waiting s \<longleftrightarrow> promise s = Pending \<and> shutdownTimeout s = Some (1000 * 10) \<and> closeHandler s"

text \<open>Both percentages are defined, and the first is at most the second.\<close>

definition le_defined :: "number option \<Rightarrow> number option \<Rightarrow> bool" where
  "le_defined a b = (case (a, b) of (Some (Fin x), Some (Fin y)) \<Rightarrow> x \<le> y | _ \<Rightarrow> False)"

section \<open>Properties of the reducer\<close>

lemma handled_types_eight:
  "handled_types = map fst written_property \<and> length handled_types = 8 \<and> distinct handled_types"
  by (simp add: handled_types_def ACTION_HANDLERS_def written_property_def action_type_defs)
















section \<open>Properties of the sync-status thunk\<close>

lemma lndSyncStatus_store:
  "store (lndSyncStatus status pubKey wallet)
    = (if truthy_string pubKey then wallet(the pubKey @ ''.hasSynced'' \<mapsto> JBool True) else wallet)"
  by (simp add: lndSyncStatus_def Let_def)

lemma lndSyncStatus_default:
  assumes "status \<noteq> ''waiting''" "status \<noteq> ''in-progress''" "status \<noteq> ''complete''"
  shows "dispatches (lndSyncStatus status pubKey wallet)
    = [Plain [''type'' \<mapsto> JStr SET_SYNC_STATUS_PENDING]]"
  using assms by (simp add: lndSyncStatus_def Let_def)

lemma reduce_pending:
  "reduceDispatched s [Plain [''type'' \<mapsto> JStr SET_SYNC_STATUS_PENDING]]
    = Inr (NextState (s(''syncStatus'' \<mapsto> JStr ''pending'')))"
  by (simp add: lndReducer_def handlerFor_def getProp_def ACTION_HANDLERS_def)

text \<open>
  C9. Whatever the status, when the identity pubkey is known (a non-empty string) the
  thunk sets \<open><pubkey>.hasSynced\<close> to \<open>true\<close> in the wallet store: the write comes before the
  switch on the status. A status other than \<open>waiting\<close>, \<open>in-progress\<close> and \<open>complete\<close>
  dispatches the pending action alone, which sets \<open>syncStatus\<close> to \<open>pending\<close>.
\<close>

theorem lndSyncStatus_persists_and_defaults:
  "(k \<noteq> [] \<longrightarrow>
      store (lndSyncStatus status (Some k) wallet) (k @ ''.hasSynced'') = Some (JBool True)) \<and>
   (status \<notin> {''waiting'', ''in-progress'', ''complete''} \<longrightarrow>
      dispatches (lndSyncStatus status pubKey wallet)
        = [Plain [''type'' \<mapsto> JStr SET_SYNC_STATUS_PENDING]] \<and>
      reduceDispatched s (dispatches (lndSyncStatus status pubKey wallet))
        = Inr (NextState (s(''syncStatus'' \<mapsto> JStr ''pending''))))"
proof (intro conjI impI)
  assume "k \<noteq> []"
  then show "store (lndSyncStatus status (Some k) wallet) (k @ ''.hasSynced'') = Some (JBool True)"
    by (simp add: lndSyncStatus_store truthy_string_def)
next
  assume "status \<notin> {''waiting'', ''in-progress'', ''complete''}"
  then have d: "dispatches (lndSyncStatus status pubKey wallet)
      = [Plain [''type'' \<mapsto> JStr SET_SYNC_STATUS_PENDING]]"
    by (intro lndSyncStatus_default) auto
  then show "dispatches (lndSyncStatus status pubKey wallet)
      = [Plain [''type'' \<mapsto> JStr SET_SYNC_STATUS_PENDING]]" .
  from d show "reduceDispatched s (dispatches (lndSyncStatus status pubKey wallet))
      = Inr (NextState (s(''syncStatus'' \<mapsto> JStr ''pending'')))"
    by (simp only: reduce_pending)
qed

theorem lndSyncStatus_persists_and_defaults_witness:
  "store (lndSyncStatus ''waiting'' (Some ''02ab'') Map.empty) ''02ab.hasSynced'' = Some (JBool True) \<and>
   store (lndSyncStatus ''in-progress'' (Some ''02ab'') Map.empty) ''02ab.hasSynced''
     = Some (JBool True) \<and>
   reduceDispatched initialState (dispatches (lndSyncStatus ''stalled'' None Map.empty))
     = Inr (NextState (initialState(''syncStatus'' \<mapsto> JStr ''pending'')))"
proof -
  have k: "''02ab'' \<noteq> []" by simp
  have key: "''02ab'' @ ''.hasSynced'' = ''02ab.hasSynced''" by simp
  have st: "''stalled'' \<notin> {''waiting'', ''in-progress'', ''complete''}" by simp
  from lndSyncStatus_persists_and_defaults
      [where k = "''02ab''" and status = "''waiting''" and wallet = Map.empty,
       THEN conjunct1] k
  have "store (lndSyncStatus ''waiting'' (Some ''02ab'') Map.empty) (''02ab'' @ ''.hasSynced'')
      = Some (JBool True)" by (rule mp)
  then have 1: "store (lndSyncStatus ''waiting'' (Some ''02ab'') Map.empty) ''02ab.hasSynced''
      = Some (JBool True)" by (simp only: key)
  from lndSyncStatus_persists_and_defaults
      [where k = "''02ab''" and status = "''in-progress''" and wallet = Map.empty,
       THEN conjunct1] k
  have "store (lndSyncStatus ''in-progress'' (Some ''02ab'') Map.empty)
      (''02ab'' @ ''.hasSynced'') = Some (JBool True)" by (rule mp)
  then have 2: "store (lndSyncStatus ''in-progress'' (Some ''02ab'') Map.empty)
      ''02ab.hasSynced'' = Some (JBool True)" by (simp only: key)
  from lndSyncStatus_persists_and_defaults
      [where status = "''stalled''" and pubKey = None and wallet = Map.empty
         and s = initialState, THEN conjunct2] st
  have "dispatches (lndSyncStatus ''stalled'' None Map.empty)
          = [Plain [''type'' \<mapsto> JStr SET_SYNC_STATUS_PENDING]] \<and>
        reduceDispatched initialState (dispatches (lndSyncStatus ''stalled'' None Map.empty))
          = Inr (NextState (initialState(''syncStatus'' \<mapsto> JStr ''pending'')))" by (rule mp)
  then have 3: "reduceDispatched initialState
      (dispatches (lndSyncStatus ''stalled'' None Map.empty))
      = Inr (NextState (initialState(''syncStatus'' \<mapsto> JStr ''pending'')))" by (rule conjunct2)
  from 1 2 3 show ?thesis by (intro conjI)
qed

section \<open>Properties of openExternal\<close>

lemma whitelist_nonempty_names: "[] \<notin> set WHITELISTED_DOMAINS"
  by (simp add: WHITELISTED_DOMAINS_def)

text \<open>
  C10. \<open>openExternal\<close> hands the URL to the shell exactly when the URL parses to a hostname
  that is one of \<open>WHITELISTED_DOMAINS\<close>, and then it hands over that URL and nothing else;
  with no hostname or a hostname outside the list it opens nothing.
\<close>

theorem openExternal_whitelisted_only:
  "openExternal hostnameOf urlString =
    (if (\<exists>h. hostnameOf urlString = Some h \<and> h \<in> set WHITELISTED_DOMAINS)
     then [urlString] else [])"
  using whitelist_nonempty_names
  by (auto simp: openExternal_def split: option.splits)

section \<open>Properties of the wallet unlocker connector\<close>

lemma seek_wu_connect:
  "seek walletUnlockerFsm st ''connect'' = (if st = ''ready'' then Some ''connected'' else None)"
  by (simp add: seek_def walletUnlockerFsm_def wildcard_def)

lemma seek_wu_disconnect:
  "seek walletUnlockerFsm st ''disconnect'' = (if st = ''connected'' then Some ''ready'' else None)"
  by (simp add: seek_def walletUnlockerFsm_def wildcard_def)

lemma new_state: "state newWalletUnlocker = ''ready''"
  by (simp add: newWalletUnlocker_def initialFsmState_def walletUnlockerFsm_def)

lemma onBeforeConnect_state [simp]:
  "state (snd (snd (onBeforeConnect getDeadline cfg out w))) = state w"
  by (simp add: onBeforeConnect_def split: option.splits)

lemma onBeforeConnect_ok_iff:
  "fst (onBeforeConnect getDeadline cfg out w) = Inr () \<longleftrightarrow>
     validateHost_r out = None \<and> loadSync_r out = None \<and> createSslCreds_r out = None \<and>
     createMacaroonCreds_r out = None \<and> waitForReady_r out = None"
  by (simp add: onBeforeConnect_def promiseAll2_def split: option.splits)

lemma onBeforeConnect_cases:
  "(\<exists>e. fst (onBeforeConnect getDeadline cfg out w) = Inl e) \<or>
   fst (onBeforeConnect getDeadline cfg out w) = Inr ()"
  by (cases "fst (onBeforeConnect getDeadline cfg out w)") auto

lemma connect_from_ready:
  assumes "state w = ''ready''"
  shows "state (snd (snd (connect getDeadline cfg out w)))
      = (if fst (onBeforeConnect getDeadline cfg out w) = Inr () then ''connected'' else ''ready'')"
    and "fst (connect getDeadline cfg out w)
      = (case fst (onBeforeConnect getDeadline cfg out w) of
           Inl e \<Rightarrow> Inl (Rejected e) | Inr _ \<Rightarrow> Inr ())"
    and "fst (snd (connect getDeadline cfg out w)) = fst (snd (onBeforeConnect getDeadline cfg out w))"
proof -
  obtain r effs w' where o: "onBeforeConnect getDeadline cfg out w = (r, effs, w')"
    by (cases "onBeforeConnect getDeadline cfg out w") auto
  have "state w' = state w"
    using onBeforeConnect_state [of getDeadline cfg out w] by (simp add: o)
  with assms o show "state (snd (snd (connect getDeadline cfg out w)))
      = (if fst (onBeforeConnect getDeadline cfg out w) = Inr () then ''connected'' else ''ready'')"
    by (cases r) (simp_all add: connect_def seek_wu_connect)
  from assms o show "fst (connect getDeadline cfg out w)
      = (case fst (onBeforeConnect getDeadline cfg out w) of
           Inl e \<Rightarrow> Inl (Rejected e) | Inr _ \<Rightarrow> Inr ())"
    by (cases r) (simp_all add: connect_def seek_wu_connect)
  from assms o show "fst (snd (connect getDeadline cfg out w))
      = fst (snd (onBeforeConnect getDeadline cfg out w))"
    by (cases r) (simp_all add: connect_def seek_wu_connect)
qed

lemma connect_invalid:
  assumes "state w \<noteq> ''ready''"
  shows "connect getDeadline cfg out w = (Inl InvalidTransition, [], w)"
  using assms by (simp add: connect_def seek_wu_connect)

lemma disconnect_connected:
  assumes "state w = ''connected''"
  shows "disconnect w =
    (Inr (), (if service w \<noteq> None then [CloseChannel] else []),
     w\<lparr>state := ''ready'', service := (if service w \<noteq> None then Some Closed else None)\<rparr>)"
  using assms by (simp add: disconnect_def seek_wu_disconnect onBeforeDisconnect_def)

lemma disconnect_invalid:
  assumes "state w \<noteq> ''connected''"
  shows "disconnect w = (Inl InvalidTransition, [], w)"
  using assms by (simp add: disconnect_def seek_wu_disconnect)

lemma connect_ok:
  "state w = ''ready'' \<and> fst (onBeforeConnect getDeadline cfg out w) = Inr () \<Longrightarrow>
      fst (connect getDeadline cfg out w) = Inr () \<and>
      state (snd (snd (connect getDeadline cfg out w))) = ''connected''"
  by (simp add: connect_from_ready)

lemma connect_rejected:
  "state w = ''ready'' \<and> fst (onBeforeConnect getDeadline cfg out w) = Inl e \<Longrightarrow>
      fst (connect getDeadline cfg out w) = Inl (Rejected e) \<and>
      state (snd (snd (connect getDeadline cfg out w))) = ''ready''"
  by (simp add: connect_from_ready)

lemma new_eq: "newWalletUnlocker = \<lparr>state = ''ready'', service = None\<rparr>"
  by (simp add: newWalletUnlocker_def initialFsmState_def walletUnlockerFsm_def)

lemma succeeding_ok: "fst (onBeforeConnect getDeadline cfg succeeding w) = Inr ()"
  by (simp add: onBeforeConnect_ok_iff succeeding_def)


lemma runOps_connect_succeeding:
  "state (runOps getDeadline cfg [Connect (succeeding :: 'e connect_outcomes)]) = ''connected''"
  using connect_ok [of newWalletUnlocker getDeadline cfg "succeeding :: 'e connect_outcomes"]
  by (simp add: runOps_def applyOp_def new_state succeeding_ok)




lemma react_CallConnect:
  "react getDeadline cfg m CallConnect =
    (if state (unlocker m) \<noteq> ''ready'' then (Inl InvalidTransition, [], m)
     else if isPending m then (Inl PendingTransition, [], m)
     else (Inr (), [], m\<lparr>inFlight := Some ''connected''\<rparr>))"
  by (simp add: react_def connectBegin_def transit_def seek_wu_connect)

lemma react_CallDisconnect:
  "react getDeadline cfg m CallDisconnect =
    (if state (unlocker m) \<noteq> ''connected'' then (Inl InvalidTransition, [], m)
     else if isPending m then (Inl PendingTransition, [], m)
     else (Inr (), (if service (unlocker m) \<noteq> None then [CloseChannel] else []),
           \<lparr>unlocker = (unlocker m)
              \<lparr>state := ''ready'',
               service := (if service (unlocker m) \<noteq> None then Some Closed else None)\<rparr>,
            inFlight = None\<rparr>))"
  by (simp add: react_def disconnectNow_def transit_def seek_wu_disconnect onBeforeDisconnect_def)

lemma react_AssignState: "react getDeadline cfg m (AssignState s) = (Inl UseTransitions, [], m)"
  by (simp add: react_def setState_def)

lemma react_Settle_idle:
  assumes "\<not> isPending m"
  shows "react getDeadline cfg m (Settle out) = (Inr (), [], m)"
  using assms by (simp add: react_def connectSettle_def isPending_def)

lemma react_Settle_pending:
  assumes "inFlight m = Some target"
  shows "react getDeadline cfg m (Settle out) =
    (case fst (onBeforeConnect getDeadline cfg out (unlocker m)) of
       Inl e \<Rightarrow> (Inl (Rejected e), fst (snd (onBeforeConnect getDeadline cfg out (unlocker m))),
                 \<lparr>unlocker = snd (snd (onBeforeConnect getDeadline cfg out (unlocker m))),
                  inFlight = None\<rparr>)
     | Inr _ \<Rightarrow> (Inr (), fst (snd (onBeforeConnect getDeadline cfg out (unlocker m))),
                 \<lparr>unlocker = (snd (snd (onBeforeConnect getDeadline cfg out (unlocker m))))
                    \<lparr>state := target\<rparr>,
                  inFlight = None\<rparr>))"
  using assms by (simp add: react_def connectSettle_def split: prod.splits sum.splits)

text \<open>
  Between two stimuli the connector is not connected (\<open>state\<close> is \<open>ready\<close>), with or without
  a connect under way, or connected with nothing under way.
\<close>

lemma react_settled:
  assumes "(state (unlocker m) = ''ready'' \<and> inFlight m \<in> {None, Some ''connected''}) \<or>
           (state (unlocker m) = ''connected'' \<and> inFlight m = None)"
  shows "(state (unlocker (snd (snd (react getDeadline cfg m x)))) = ''ready'' \<and>
            inFlight (snd (snd (react getDeadline cfg m x))) \<in> {None, Some ''connected''}) \<or>
         (state (unlocker (snd (snd (react getDeadline cfg m x)))) = ''connected'' \<and>
            inFlight (snd (snd (react getDeadline cfg m x))) = None)"
proof (cases x)
  case CallConnect
  with assms show ?thesis by (auto simp: react_CallConnect isPending_def)
next
  case (Settle out)
  show ?thesis
  proof (cases "inFlight m")
    case None
    with assms show ?thesis by (simp add: Settle react_Settle_idle isPending_def)
  next
    case (Some target)
    with assms have t: "target = ''connected''" by auto
    show ?thesis
      by (cases "fst (onBeforeConnect getDeadline cfg out (unlocker m))")
         (use assms Some in \<open>auto simp: Settle react_Settle_pending [OF Some] t\<close>)
  qed
next
  case CallDisconnect
  with assms show ?thesis by (auto simp: react_CallDisconnect isPending_def)
next
  case (AssignState s)
  with assms show ?thesis by (simp add: react_AssignState)
qed

lemma runHistory_snoc:
  "runHistory getDeadline cfg (h @ [x])
    = snd (snd (react getDeadline cfg (runHistory getDeadline cfg h) x))"
  by (simp add: runHistory_def)

lemma runHistory_settled:
  "(state (unlocker (runHistory getDeadline cfg h)) = ''ready'' \<and>
      inFlight (runHistory getDeadline cfg h) \<in> {None, Some ''connected''}) \<or>
   (state (unlocker (runHistory getDeadline cfg h)) = ''connected'' \<and>
      inFlight (runHistory getDeadline cfg h) = None)"
proof (induction h rule: rev_induct)
  case Nil
  show ?case by (simp add: runHistory_def newMachine_def new_state)
next
  case (snoc x h)
  show ?case unfolding runHistory_snoc using snoc.IH by (rule react_settled)
qed

lemma runHistory_phase:
  "phase (runHistory getDeadline cfg h) \<in> {''idle'', ''connecting'', ''ready''}"
  using runHistory_settled [of getDeadline cfg h] by (auto simp: phase_def isPending_def)

text \<open>
  A \<open>connect\<close> or \<open>disconnect\<close> taken whole is the call, followed for \<open>connect\<close> by the
  settlement, on a connector with nothing under way.
\<close>

lemma connect_call_then_settle:
  assumes "\<not> isPending m"
  shows "connect getDeadline cfg out (unlocker m) =
    (case connectBegin m of
       (Inl err, m1) \<Rightarrow> (Inl err, [], unlocker m1)
     | (Inr _, m1) \<Rightarrow>
         (case connectSettle getDeadline cfg out m1 of
            (r, effects, m2) \<Rightarrow> (r, effects, unlocker m2)))"
  using assms
  by (cases "onBeforeConnect getDeadline cfg out (unlocker m)")
     (simp add: connect_def connectBegin_def connectSettle_def transit_def seek_wu_connect
        split: sum.splits)

lemma disconnect_call:
  assumes "\<not> isPending m"
  shows "disconnect (unlocker m) =
    (case disconnectNow m of (r, effects, m1) \<Rightarrow> (r, effects, unlocker m1))"
  using assms
  by (simp add: disconnect_def disconnectNow_def transit_def seek_wu_disconnect
      split: prod.splits)

lemma canFire_can:
  "canFire m nm \<longleftrightarrow> \<not> isPending m \<and> can walletUnlockerFsm (unlocker m) nm"
  by (simp add: canFire_def can_def)

lemma walletUnlocker_states: "fsmStates walletUnlockerFsm = [''none'', ''ready'', ''connected'']"
  by (simp add: fsmStates_def walletUnlockerFsm_def wildcard_def)




text \<open>
  C5, as the code has it. \<open>disconnect()\<close> on a connected connector closes the channel when
  \<open>service\<close> is set and returns to \<open>ready\<close>. On a connector that is not connected the
  transition is not legal: the call throws the invalid-transition error, closes nothing and
  leaves the connector as it was, and \<open>can('disconnect')\<close> is false there (the check the
  controller makes before it calls \<open>disconnect\<close>).
\<close>

theorem disconnect_only_when_connected:
  "(state w = ''connected'' \<longrightarrow>
      (disconnect w :: ('e fsm_error + unit) \<times> 'd effect list \<times> walletUnlocker) =
        (Inr (), (if service w \<noteq> None then [CloseChannel] else []),
         w\<lparr>state := ''ready'', service := (if service w \<noteq> None then Some Closed else None)\<rparr>)) \<and>
   (state w \<noteq> ''connected'' \<longrightarrow>
      (disconnect w :: ('e fsm_error + unit) \<times> 'd effect list \<times> walletUnlocker)
        = (Inl InvalidTransition, [], w) \<and>
      \<not> can walletUnlockerFsm w ''disconnect'')"
  by (simp add: disconnect_connected disconnect_invalid can_def seek_wu_disconnect)

text \<open>
  The claim C5 as stated fails: \<open>disconnect()\<close> on a new connector throws, and so does a
  second \<open>disconnect()\<close> after a first.
\<close>

theorem disconnect_idle_counterexample:
  "fst (disconnect newWalletUnlocker
     :: (string fsm_error + unit) \<times> nat effect list \<times> walletUnlocker) = Inl InvalidTransition \<and>
   fst (disconnect (snd (snd (disconnect (runOps seconds exampleConfig
          [Connect succeeding :: string connector_op])
       :: (string fsm_error + unit) \<times> nat effect list \<times> walletUnlocker)))
     :: (string fsm_error + unit) \<times> nat effect list \<times> walletUnlocker) = Inl InvalidTransition"
proof -
  have 1: "fst (disconnect newWalletUnlocker
     :: (string fsm_error + unit) \<times> nat effect list \<times> walletUnlocker) = Inl InvalidTransition"
    by (simp add: disconnect_invalid new_state)
  have c: "state (runOps seconds exampleConfig [Connect succeeding :: string connector_op])
      = ''connected''"
    by (rule runOps_connect_succeeding)
  have "state (snd (snd (disconnect (runOps seconds exampleConfig
          [Connect succeeding :: string connector_op])
       :: (string fsm_error + unit) \<times> nat effect list \<times> walletUnlocker))) = ''ready''"
    by (simp add: disconnect_connected [OF c])
  then have 2: "fst (disconnect (snd (snd (disconnect (runOps seconds exampleConfig
          [Connect succeeding :: string connector_op])
       :: (string fsm_error + unit) \<times> nat effect list \<times> walletUnlocker)))
     :: (string fsm_error + unit) \<times> nat effect list \<times> walletUnlocker) = Inl InvalidTransition"
    by (simp add: disconnect_invalid)
  from 1 2 show ?thesis by (rule conjI)
qed

theorem disconnect_only_when_connected_witness:
  "(disconnect (runOps seconds exampleConfig [Connect succeeding :: string connector_op])
      :: (string fsm_error + unit) \<times> nat effect list \<times> walletUnlocker)
     = (Inr (), [CloseChannel], \<lparr>state = ''ready'', service = Some Closed\<rparr>) \<and>
   (disconnect newWalletUnlocker
      :: (string fsm_error + unit) \<times> nat effect list \<times> walletUnlocker)
     = (Inl InvalidTransition, [], newWalletUnlocker) \<and>
   \<not> can walletUnlockerFsm newWalletUnlocker ''disconnect''"
proof -
  let ?w = "runOps seconds exampleConfig [Connect succeeding :: string connector_op]"
  have c: "state ?w = ''connected''" by (rule runOps_connect_succeeding)
  have w: "?w = \<lparr>state = ''connected'', service = Some Open\<rparr>"
    by (simp add: runOps_def applyOp_def connect_def seek_wu_connect new_eq
        onBeforeConnect_def succeeding_def promiseAll2_def)
  have n: "state newWalletUnlocker \<noteq> ''connected''" by (simp add: new_state)
  from disconnect_only_when_connected [of ?w, THEN conjunct1, THEN mp, OF c]
  have 1: "(disconnect ?w :: (string fsm_error + unit) \<times> nat effect list \<times> walletUnlocker)
     = (Inr (), [CloseChannel], \<lparr>state = ''ready'', service = Some Closed\<rparr>)"
    by (simp add: w)
  from disconnect_only_when_connected [of newWalletUnlocker, THEN conjunct2, THEN mp, OF n]
  have 2: "(disconnect newWalletUnlocker
      :: (string fsm_error + unit) \<times> nat effect list \<times> walletUnlocker)
     = (Inl InvalidTransition, [], newWalletUnlocker) \<and>
   \<not> can walletUnlockerFsm newWalletUnlocker ''disconnect''" .
  from 1 2 show ?thesis by (rule conjI)
qed

lemma onBeforeConnect_host_invalid:
  "validateHost_r out = Some e \<Longrightarrow>
     onBeforeConnect getDeadline cfg out w = (Inl e, [ValidateHost (host cfg)], w)"
  by (simp add: onBeforeConnect_def)

lemma onBeforeConnect_timeout:
  "validateHost_r out = None \<and> loadSync_r out = None \<and> createSslCreds_r out = None \<and>
   createMacaroonCreds_r out = None \<and> waitForReady_r out = Some e \<Longrightarrow>
     onBeforeConnect getDeadline cfg out w =
       (Inl e, connectSequence getDeadline cfg @ [CloseChannel], w\<lparr>service := Some Closed\<rparr>)"
  by (simp add: onBeforeConnect_def promiseAll2_def connectSequence_def)

lemma onBeforeConnect_ready:
  "validateHost_r out = None \<and> loadSync_r out = None \<and> createSslCreds_r out = None \<and>
   createMacaroonCreds_r out = None \<and> waitForReady_r out = None \<Longrightarrow>
     onBeforeConnect getDeadline cfg out w =
       (Inr (), connectSequence getDeadline cfg, w\<lparr>service := Some Open\<rparr>)"
  by (simp add: onBeforeConnect_def promiseAll2_def connectSequence_def)

lemma onBeforeConnect_prefix:
  "prefix (fst (snd (onBeforeConnect getDeadline cfg out w)))
     (connectSequence getDeadline cfg @ [CloseChannel])"
  by (simp add: onBeforeConnect_def connectSequence_def split: option.splits)

lemma onBeforeConnect_first:
  "hd (fst (snd (onBeforeConnect getDeadline cfg out w))) = ValidateHost (host cfg)"
  by (simp add: onBeforeConnect_def split: option.splits)

lemma onBeforeConnect_close_iff:
  "CloseChannel \<in> set (fst (snd (onBeforeConnect getDeadline cfg out w))) \<longleftrightarrow>
     validateHost_r out = None \<and> loadSync_r out = None \<and> createSslCreds_r out = None \<and>
     createMacaroonCreds_r out = None \<and> waitForReady_r out \<noteq> None"
  by (auto simp: onBeforeConnect_def promiseAll2_def split: option.splits)

lemma connect_timeout:
  "state w = ''ready'' \<and> validateHost_r out = None \<and> loadSync_r out = None \<and>
   createSslCreds_r out = None \<and> createMacaroonCreds_r out = None \<and> waitForReady_r out = Some e \<Longrightarrow>
     connect getDeadline cfg out w =
       (Inl (Rejected e), connectSequence getDeadline cfg @ [CloseChannel],
        w\<lparr>service := Some Closed\<rparr>)"
  by (simp add: connect_def seek_wu_connect onBeforeConnect_timeout)

text \<open>
  C6. \<open>connect()\<close> validates the host first, then loads the proto file, creates the TLS
  and macaroon credentials, opens the client and waits for it to be ready under the
  deadline \<open>getDeadline (2)\<close>: what it does is always an initial part of that sequence,
  followed at most by closing the channel. When the host is invalid nothing else is done.
  When the wait ends with an error the channel is closed and \<open>connect()\<close> is rejected with
  that error, the state staying \<open>ready\<close>.
\<close>

theorem onBeforeConnect_sequence:
  "prefix (fst (snd (onBeforeConnect getDeadline cfg out w)))
     (connectSequence getDeadline cfg @ [CloseChannel]) \<and>
   hd (fst (snd (onBeforeConnect getDeadline cfg out w))) = ValidateHost (host cfg) \<and>
   (\<forall>e. validateHost_r out = Some e \<longrightarrow>
      onBeforeConnect getDeadline cfg out w = (Inl e, [ValidateHost (host cfg)], w)) \<and>
   (validateHost_r out = None \<and> loadSync_r out = None \<and> createSslCreds_r out = None \<and>
    createMacaroonCreds_r out = None \<and> waitForReady_r out = None \<longrightarrow>
      onBeforeConnect getDeadline cfg out w =
        (Inr (), connectSequence getDeadline cfg, w\<lparr>service := Some Open\<rparr>)) \<and>
   (\<forall>e. validateHost_r out = None \<and> loadSync_r out = None \<and> createSslCreds_r out = None \<and>
    createMacaroonCreds_r out = None \<and> waitForReady_r out = Some e \<longrightarrow>
      onBeforeConnect getDeadline cfg out w =
        (Inl e, connectSequence getDeadline cfg @ [CloseChannel], w\<lparr>service := Some Closed\<rparr>) \<and>
      (state w = ''ready'' \<longrightarrow>
         connect getDeadline cfg out w =
           (Inl (Rejected e), connectSequence getDeadline cfg @ [CloseChannel],
            w\<lparr>service := Some Closed\<rparr>)))"
  using onBeforeConnect_prefix [of getDeadline cfg out w]
    onBeforeConnect_first [of getDeadline cfg out w]
  by (simp add: onBeforeConnect_host_invalid onBeforeConnect_ready onBeforeConnect_timeout
      connect_timeout)

theorem onBeforeConnect_sequence_witness:
  "onBeforeConnect seconds exampleConfig timedOut newWalletUnlocker =
     (Inl ''Failed to connect before the deadline'',
      [ValidateHost ''localhost:10009'', LoadProto ''rpc.proto'', LoadPackageDefinition,
       CreateSslCreds ''tls.cert'', CreateMacaroonCreds ''admin.macaroon'',
       CombineChannelCredentials, NewClient ''localhost:10009'', WaitForReady 2, CloseChannel],
      \<lparr>state = ''ready'', service = Some Closed\<rparr>) \<and>
   connect seconds exampleConfig timedOut newWalletUnlocker =
     (Inl (Rejected ''Failed to connect before the deadline''),
      [ValidateHost ''localhost:10009'', LoadProto ''rpc.proto'', LoadPackageDefinition,
       CreateSslCreds ''tls.cert'', CreateMacaroonCreds ''admin.macaroon'',
       CombineChannelCredentials, NewClient ''localhost:10009'', WaitForReady 2, CloseChannel],
      \<lparr>state = ''ready'', service = Some Closed\<rparr>) \<and>
   onBeforeConnect seconds exampleConfig (succeeding :: string connect_outcomes) newWalletUnlocker =
     (Inr (),
      [ValidateHost ''localhost:10009'', LoadProto ''rpc.proto'', LoadPackageDefinition,
       CreateSslCreds ''tls.cert'', CreateMacaroonCreds ''admin.macaroon'',
       CombineChannelCredentials, NewClient ''localhost:10009'', WaitForReady 2],
      \<lparr>state = ''ready'', service = Some Open\<rparr>) \<and>
   onBeforeConnect seconds exampleConfig
       (succeeding\<lparr>validateHost_r := Some ''not a valid host''\<rparr>) newWalletUnlocker =
     (Inl ''not a valid host'', [ValidateHost ''localhost:10009''], newWalletUnlocker)"
proof -
  let ?e = "''Failed to connect before the deadline''"
  have out: "validateHost_r timedOut = None \<and> loadSync_r timedOut = None \<and>
      createSslCreds_r timedOut = None \<and> createMacaroonCreds_r timedOut = None \<and>
      waitForReady_r timedOut = Some ?e"
    by (simp add: timedOut_def succeeding_def)
  have ok: "validateHost_r (succeeding :: string connect_outcomes) = None \<and>
      loadSync_r (succeeding :: string connect_outcomes) = None \<and>
      createSslCreds_r (succeeding :: string connect_outcomes) = None \<and>
      createMacaroonCreds_r (succeeding :: string connect_outcomes) = None \<and>
      waitForReady_r (succeeding :: string connect_outcomes) = None"
    by (simp add: succeeding_def)
  have bad: "validateHost_r (succeeding\<lparr>validateHost_r := Some ''not a valid host''\<rparr>)
      = Some ''not a valid host''"
    by simp
  have seq: "connectSequence seconds exampleConfig =
      [ValidateHost ''localhost:10009'', LoadProto ''rpc.proto'', LoadPackageDefinition,
       CreateSslCreds ''tls.cert'', CreateMacaroonCreds ''admin.macaroon'',
       CombineChannelCredentials, NewClient ''localhost:10009'', WaitForReady 2]"
    by (simp add: connectSequence_def exampleConfig_def seconds_def)
  have h: "host exampleConfig = ''localhost:10009''" by (simp add: exampleConfig_def)
  note t1 = onBeforeConnect_sequence
    [where getDeadline = seconds and cfg = exampleConfig and out = timedOut
       and w = newWalletUnlocker]
  from t1 [THEN conjunct2, THEN conjunct2, THEN conjunct2, THEN conjunct2, THEN spec,
      THEN mp, OF out]
  have a: "onBeforeConnect seconds exampleConfig timedOut newWalletUnlocker =
        (Inl ?e, connectSequence seconds exampleConfig @ [CloseChannel],
         newWalletUnlocker\<lparr>service := Some Closed\<rparr>) \<and>
      (state newWalletUnlocker = ''ready'' \<longrightarrow>
         connect seconds exampleConfig timedOut newWalletUnlocker =
           (Inl (Rejected ?e), connectSequence seconds exampleConfig @ [CloseChannel],
            newWalletUnlocker\<lparr>service := Some Closed\<rparr>))" .
  from a have 1: "onBeforeConnect seconds exampleConfig timedOut newWalletUnlocker =
     (Inl ?e,
      [ValidateHost ''localhost:10009'', LoadProto ''rpc.proto'', LoadPackageDefinition,
       CreateSslCreds ''tls.cert'', CreateMacaroonCreds ''admin.macaroon'',
       CombineChannelCredentials, NewClient ''localhost:10009'', WaitForReady 2, CloseChannel],
      \<lparr>state = ''ready'', service = Some Closed\<rparr>)"
    by (simp add: seq new_eq)
  from a have 2: "connect seconds exampleConfig timedOut newWalletUnlocker =
     (Inl (Rejected ?e),
      [ValidateHost ''localhost:10009'', LoadProto ''rpc.proto'', LoadPackageDefinition,
       CreateSslCreds ''tls.cert'', CreateMacaroonCreds ''admin.macaroon'',
       CombineChannelCredentials, NewClient ''localhost:10009'', WaitForReady 2, CloseChannel],
      \<lparr>state = ''ready'', service = Some Closed\<rparr>)"
    by (simp add: seq new_eq)
  note t2 = onBeforeConnect_sequence
    [where getDeadline = seconds and cfg = exampleConfig
       and out = "succeeding :: string connect_outcomes" and w = newWalletUnlocker]
  from t2 [THEN conjunct2, THEN conjunct2, THEN conjunct2, THEN conjunct1, THEN mp, OF ok]
  have 3: "onBeforeConnect seconds exampleConfig (succeeding :: string connect_outcomes)
      newWalletUnlocker =
     (Inr (),
      [ValidateHost ''localhost:10009'', LoadProto ''rpc.proto'', LoadPackageDefinition,
       CreateSslCreds ''tls.cert'', CreateMacaroonCreds ''admin.macaroon'',
       CombineChannelCredentials, NewClient ''localhost:10009'', WaitForReady 2],
      \<lparr>state = ''ready'', service = Some Open\<rparr>)"
    by (simp add: seq new_eq)
  note t3 = onBeforeConnect_sequence
    [where getDeadline = seconds and cfg = exampleConfig
       and out = "succeeding\<lparr>validateHost_r := Some ''not a valid host''\<rparr>"
       and w = newWalletUnlocker]
  from t3 [THEN conjunct2, THEN conjunct2, THEN conjunct1, THEN spec, THEN mp, OF bad]
  have 4: "onBeforeConnect seconds exampleConfig
       (succeeding\<lparr>validateHost_r := Some ''not a valid host''\<rparr>) newWalletUnlocker =
     (Inl ''not a valid host'', [ValidateHost ''localhost:10009''], newWalletUnlocker)"
    by (simp add: h)
  from 1 2 3 4 show ?thesis by (intro conjI)
qed

section \<open>Properties of the controller\<close>

lemma seek_zap_connectLnd:
  "seek zapControllerFsm st ''connectLnd'' = (if st = ''onboarding'' then Some ''connected'' else None)"
  by (simp add: seek_def zapControllerFsm_def wildcard_def)

lemma connectErrors_host:
  "err_host (connectErrors e) =
    Some (if code e = CodeNum 12
          then ''Unable to connect to host. Please ensure wallet is unlocked before connecting.''
          else ''Unable to connect to host: '' @ or_else (details e) (message e))"
  by (simp add: connectErrors_def Let_def)

lemma connectErrors_cert:
  "err_cert (connectErrors e) =
    (if code e = CodeStr ''LND_GRPC_CERT_ERROR'' then Some (message e) else None)"
  by (simp add: connectErrors_def Let_def)

lemma connectErrors_macaroon:
  "err_macaroon (connectErrors e) =
    (if code e = CodeStr ''LND_GRPC_MACAROON_ERROR'' then Some (message e) else None)"
  by (simp add: connectErrors_def Let_def)

lemma connectLnd_rejected:
  assumes "state c = ''onboarding''"
  shows "connectLnd (Some e) canTerminate c =
    (Inl (Rejected e),
     sendMessage (c\<lparr>lightning := Some canTerminate\<rparr>) ''startLndError'' (Errors (connectErrors e)))"
  using assms
  by (simp add: connectLnd_def seek_zap_connectLnd onBeforeConnectLnd_def
      startLightningWallet_def Let_def)

text \<open>
  C3. When \<open>connectLnd\<close> is fired in \<open>onboarding\<close> and the connection attempt fails with
  the error \<open>e\<close>, the transition is rejected with \<open>e\<close>, the controller stays in
  \<open>onboarding\<close>, and (a main window being there) one \<open>startLndError\<close> message goes to the
  renderer with the error object. Its host field is always set: the hint to unlock the
  wallet for the gRPC status 12 (unimplemented), else \<open>Unable to connect to host: \<close> with
  the error's details or message. Its cert field is set exactly for \<open>LND_GRPC_CERT_ERROR\<close>
  and its macaroon field exactly for \<open>LND_GRPC_MACAROON_ERROR\<close>; for those two codes the
  host field is set as well.
\<close>

theorem connectLnd_failure_relayed:
  assumes "state c = ''onboarding''" and "mainWindow c"
  shows "fst (connectLnd (Some e) canTerminate c) = Inl (Rejected e) \<and>
         state (snd (connectLnd (Some e) canTerminate c)) = ''onboarding'' \<and>
         sent (snd (connectLnd (Some e) canTerminate c))
           = sent c @ [(''startLndError'', Errors (connectErrors e))] \<and>
         err_host (connectErrors e) =
           Some (if code e = CodeNum 12
                 then ''Unable to connect to host. Please ensure wallet is unlocked before connecting.''
                 else ''Unable to connect to host: '' @ or_else (details e) (message e)) \<and>
         err_cert (connectErrors e) =
           (if code e = CodeStr ''LND_GRPC_CERT_ERROR'' then Some (message e) else None) \<and>
         err_macaroon (connectErrors e) =
           (if code e = CodeStr ''LND_GRPC_MACAROON_ERROR'' then Some (message e) else None)"
proof -
  note r = connectLnd_rejected [OF assms(1), of e canTerminate]
  have 1: "fst (connectLnd (Some e) canTerminate c) = Inl (Rejected e)"
    by (simp add: r)
  have 2: "state (snd (connectLnd (Some e) canTerminate c)) = ''onboarding''"
    using assms(1) by (simp add: r sendMessage_def)
  have 3: "sent (snd (connectLnd (Some e) canTerminate c))
      = sent c @ [(''startLndError'', Errors (connectErrors e))]"
    using assms(2) by (simp add: r sendMessage_def)
  show ?thesis
    using 1 2 3
    by (simp add: connectErrors_host connectErrors_cert connectErrors_macaroon)
qed

theorem connectLnd_failure_relayed_witness:
  "fst (connectLnd (Some hostUnreachable) False onboardingController)
     = Inl (Rejected hostUnreachable) \<and>
   state (snd (connectLnd (Some hostUnreachable) False onboardingController)) = ''onboarding'' \<and>
   sent (snd (connectLnd (Some hostUnreachable) False onboardingController))
     = [(''startLndError'',
         Errors \<lparr>err_host = Some ''Unable to connect to host: 10.0.0.1:10009 is not reachable'',
                 err_cert = None, err_macaroon = None\<rparr>)]"
proof -
  have st: "state onboardingController = ''onboarding''"
    by (simp add: onboardingController_def)
  have win: "mainWindow onboardingController"
    by (simp add: onboardingController_def)
  have errs: "connectErrors hostUnreachable
      = \<lparr>err_host = Some ''Unable to connect to host: 10.0.0.1:10009 is not reachable'',
         err_cert = None, err_macaroon = None\<rparr>"
    by (simp add: connectErrors_def hostUnreachable_def or_else_def Let_def)
  have nil: "sent onboardingController = []"
    by (simp add: onboardingController_def)
  note t = connectLnd_failure_relayed [OF st win, of hostUnreachable False]
  from t have 1: "fst (connectLnd (Some hostUnreachable) False onboardingController)
      = Inl (Rejected hostUnreachable)" by (rule conjunct1)
  from t have 2: "state (snd (connectLnd (Some hostUnreachable) False onboardingController))
      = ''onboarding''" by (rule conjunct2 [THEN conjunct1])
  from t have "sent (snd (connectLnd (Some hostUnreachable) False onboardingController))
      = sent onboardingController @ [(''startLndError'', Errors (connectErrors hostUnreachable))]"
    by (rule conjunct2 [THEN conjunct2, THEN conjunct1])
  then have 3: "sent (snd (connectLnd (Some hostUnreachable) False onboardingController))
      = [(''startLndError'',
         Errors \<lparr>err_host = Some ''Unable to connect to host: 10.0.0.1:10009 is not reachable'',
                 err_cert = None, err_macaroon = None\<rparr>)]"
    by (simp only: errs nil append_Nil)
  from 1 2 3 show ?thesis by (intro conjI)
qed

lemma run_append: "run c s (es @ es') = run c (run c s es) es'"
  by (induction es arbitrary: s) simp_all

lemma resolve_promise:
  "promise (resolve s) = (if promise s = Pending then Resolved else promise s)"
  by (simp add: resolve_def)

lemma resolve_fields [simp]:
  "shutdownTimeout (resolve s) = shutdownTimeout s"
  "closeHandler (resolve s) = closeHandler s"
  "terminating (resolve s) = terminating s"
  "kills (resolve s) = kills s"
  "terminateCalls (resolve s) = terminateCalls s"
  by (simp_all add: resolve_def)

lemma step_resolved: "promise s = Resolved \<Longrightarrow> promise (step c s e) = Resolved"
  by (cases e) (simp_all add: resolve_promise)

lemma run_resolved: "promise s = Resolved \<Longrightarrow> promise (run c s es) = Resolved"
  by (induction es arbitrary: s) (simp_all add: step_resolved)

lemma step_waiting:
  assumes "neutrino c" and "waiting s"
  shows "promise (step c s e) = Resolved \<or> waiting (step c s e)"
  using assms by (cases e) (simp_all add: waiting_def resolve_promise)

lemma run_waiting:
  assumes "neutrino c" and "waiting s"
  shows "promise (run c s es) = Resolved \<or> waiting (run c s es)"
  using assms(2)
proof (induction es arbitrary: s)
  case Nil
  then show ?case by simp
next
  case (Cons e es)
  from step_waiting [OF assms(1) Cons.prems, of e]
  show ?case
  proof
    assume "promise (step c s e) = Resolved"
    then show ?thesis by (simp add: run_resolved)
  next
    assume "waiting (step c s e)"
    then show ?thesis using Cons.IH by simp
  qed
qed

lemma timeout_resolves:
  assumes "neutrino c" and "promise s = Resolved \<or> waiting s"
  shows "promise (step c s TimeoutElapsed) = Resolved"
  using assms by (auto simp: waiting_def resolve_promise)

lemma step_kills_mono: "kills s \<le> kills (step c s e)"
  by (cases e) simp_all

lemma run_kills_mono: "kills s \<le> kills (run c s es)"
proof (induction es arbitrary: s)
  case Nil
  show ?case by simp
next
  case (Cons e es)
  have "kills s \<le> kills (step c s e)" by (rule step_kills_mono)
  also have "\<dots> \<le> kills (run c (step c s e) es)" by (rule Cons.IH)
  finally show ?case by simp
qed

lemma run_quiet:
  assumes "waiting s" and "set es \<subseteq> {TerminateResolved}"
  shows "waiting (run c s es) \<and> kills (run c s es) = kills s"
  using assms
proof (induction es arbitrary: s)
  case Nil
  then show ?case by simp
next
  case (Cons e es)
  then have e: "e = TerminateResolved" by simp
  have "waiting (step c s e)" "kills (step c s e) = kills s"
    using Cons.prems(1) by (simp_all add: e waiting_def)
  with Cons show ?case by simp
qed

lemma timeout_kills:
  assumes "neutrino c" and "waiting s"
  shows "kills (step c s TimeoutElapsed) = kills s + 1"
  using assms by (simp add: waiting_def)

lemma shutdown_graceful_start:
  assumes "lndConfig_type c = ''local''" "lightning c = Some True" "neutrino c"
  shows "shutdownNeutrino c =
    \<lparr>promise = Pending, shutdownTimeout = Some (1000 * 10), closeHandler = True,
     terminating = True, kills = 0, terminateCalls = 1\<rparr>"
  using assms by (simp add: shutdownNeutrino_def)

lemma shutdown_graceful_waiting:
  assumes "lndConfig_type c = ''local''" "lightning c = Some True" "neutrino c"
  shows "waiting (shutdownNeutrino c)"
  by (simp add: shutdown_graceful_start [OF assms] waiting_def)

lemma shutdown_kill_now:
  assumes "lndConfig_type c = ''local''" "lightning c \<noteq> Some True" "neutrino c"
  shows "shutdownNeutrino c =
    \<lparr>promise = Resolved, shutdownTimeout = None, closeHandler = False,
     terminating = False, kills = 1, terminateCalls = 0\<rparr>"
  using assms by (simp add: shutdownNeutrino_def)

lemma shutdown_not_local:
  assumes "lndConfig_type c \<noteq> ''local''"
  shows "shutdownNeutrino c =
    \<lparr>promise = Resolved, shutdownTimeout = None, closeHandler = False,
     terminating = False, kills = 0, terminateCalls = 0\<rparr>"
  using assms by (simp add: shutdownNeutrino_def)

lemma graceful_deadline:
  assumes "lndConfig_type c = ''local''" "lightning c = Some True" "neutrino c"
  shows "promise (run c (shutdownNeutrino c) (es @ TimeoutElapsed # es')) = Resolved"
proof -
  from run_waiting [OF assms(3) shutdown_graceful_waiting [OF assms], of es]
  have "promise (step c (run c (shutdownNeutrino c) es) TimeoutElapsed) = Resolved"
    by (intro timeout_resolves [OF assms(3)])
  then show ?thesis by (simp add: run_append run_resolved)
qed

lemma graceful_forced_kill:
  assumes "lndConfig_type c = ''local''" "lightning c = Some True" "neutrino c"
    and "set es \<subseteq> {TerminateResolved}"
  shows "promise (run c (shutdownNeutrino c) es) = Pending \<and>
         kills (run c (shutdownNeutrino c) es) = 0 \<and>
         promise (run c (shutdownNeutrino c) (es @ [TimeoutElapsed])) = Resolved \<and>
         kills (run c (shutdownNeutrino c) (es @ [TimeoutElapsed])) = 1"
proof -
  let ?s = "run c (shutdownNeutrino c) es"
  from run_quiet [OF shutdown_graceful_waiting [OF assms(1-3)] assms(4), of c]
  have w: "waiting ?s" and k: "kills ?s = 0"
    by (simp_all add: shutdown_graceful_start [OF assms(1-3)])
  from w have 1: "promise ?s = Pending" by (simp add: waiting_def)
  from w have 3: "promise (step c ?s TimeoutElapsed) = Resolved"
    by (intro timeout_resolves [OF assms(3)]) simp
  from timeout_kills [OF assms(3) w] k have 4: "kills (step c ?s TimeoutElapsed) = 1" by simp
  from 1 k 3 4 show ?thesis by (simp add: run_append)
qed

text \<open>
  C2, as the code has it. With a local configuration and a node process: when the
  lightning connection can terminate, \<open>terminate()\<close> is called once and a ten-second timer
  is armed; whatever happens next, the promise is resolved or else still pending with the
  timer armed, so that it is resolved once the timer has run out; when neither \<open>close\<close> nor
  a failure of \<open>terminate()\<close> has come before the timer runs out, the process is killed
  then. When the connection cannot terminate, the process is killed at once, with no timer
  and no \<open>terminate()\<close>. With a configuration that is not local, the call resolves at once
  and neither stops nor kills anything. A resolved promise stays resolved.
\<close>

theorem shutdownNeutrino_bounded:
  "(lndConfig_type c = ''local'' \<and> neutrino c \<and> lightning c = Some True \<longrightarrow>
      shutdownNeutrino c =
        \<lparr>promise = Pending, shutdownTimeout = Some (1000 * 10), closeHandler = True,
         terminating = True, kills = 0, terminateCalls = 1\<rparr> \<and>
      (\<forall>es. promise (run c (shutdownNeutrino c) es) = Resolved \<or>
            promise (run c (shutdownNeutrino c) es) = Pending \<and>
            shutdownTimeout (run c (shutdownNeutrino c) es) = Some (1000 * 10)) \<and>
      (\<forall>es es'. promise (run c (shutdownNeutrino c) (es @ TimeoutElapsed # es')) = Resolved) \<and>
      (\<forall>es. set es \<subseteq> {TerminateResolved} \<longrightarrow>
            promise (run c (shutdownNeutrino c) es) = Pending \<and>
            kills (run c (shutdownNeutrino c) es) = 0 \<and>
            promise (run c (shutdownNeutrino c) (es @ [TimeoutElapsed])) = Resolved \<and>
            kills (run c (shutdownNeutrino c) (es @ [TimeoutElapsed])) = 1)) \<and>
   (lndConfig_type c = ''local'' \<and> neutrino c \<and> lightning c \<noteq> Some True \<longrightarrow>
      shutdownNeutrino c =
        \<lparr>promise = Resolved, shutdownTimeout = None, closeHandler = False,
         terminating = False, kills = 1, terminateCalls = 0\<rparr>) \<and>
   (lndConfig_type c \<noteq> ''local'' \<longrightarrow>
      shutdownNeutrino c =
        \<lparr>promise = Resolved, shutdownTimeout = None, closeHandler = False,
         terminating = False, kills = 0, terminateCalls = 0\<rparr>) \<and>
   (\<forall>s es. promise s = Resolved \<longrightarrow> promise (run c s es) = Resolved)"
proof (intro conjI impI allI)
  assume h: "lndConfig_type c = ''local'' \<and> neutrino c \<and> lightning c = Some True"
  then have l: "lndConfig_type c = ''local''" and n: "neutrino c" and g: "lightning c = Some True"
    by simp_all
  show "shutdownNeutrino c =
        \<lparr>promise = Pending, shutdownTimeout = Some (1000 * 10), closeHandler = True,
         terminating = True, kills = 0, terminateCalls = 1\<rparr>"
    by (rule shutdown_graceful_start [OF l g n])
  show "\<And>es. promise (run c (shutdownNeutrino c) es) = Resolved \<or>
            promise (run c (shutdownNeutrino c) es) = Pending \<and>
            shutdownTimeout (run c (shutdownNeutrino c) es) = Some (1000 * 10)"
    using run_waiting [OF n shutdown_graceful_waiting [OF l g n]]
    unfolding waiting_def by blast
  show "\<And>es es'. promise (run c (shutdownNeutrino c) (es @ TimeoutElapsed # es')) = Resolved"
    by (rule graceful_deadline [OF l g n])
  show "\<And>es. set es \<subseteq> {TerminateResolved} \<Longrightarrow>
            promise (run c (shutdownNeutrino c) es) = Pending"
    using graceful_forced_kill [OF l g n] by blast
  show "\<And>es. set es \<subseteq> {TerminateResolved} \<Longrightarrow> kills (run c (shutdownNeutrino c) es) = 0"
    using graceful_forced_kill [OF l g n] by blast
  show "\<And>es. set es \<subseteq> {TerminateResolved} \<Longrightarrow>
            promise (run c (shutdownNeutrino c) (es @ [TimeoutElapsed])) = Resolved"
    using graceful_forced_kill [OF l g n] by blast
  show "\<And>es. set es \<subseteq> {TerminateResolved} \<Longrightarrow>
            kills (run c (shutdownNeutrino c) (es @ [TimeoutElapsed])) = 1"
    using graceful_forced_kill [OF l g n] by blast
next
  assume "lndConfig_type c = ''local'' \<and> neutrino c \<and> lightning c \<noteq> Some True"
  then show "shutdownNeutrino c =
        \<lparr>promise = Resolved, shutdownTimeout = None, closeHandler = False,
         terminating = False, kills = 1, terminateCalls = 0\<rparr>"
    by (simp add: shutdown_kill_now)
next
  assume "lndConfig_type c \<noteq> ''local''"
  then show "shutdownNeutrino c =
        \<lparr>promise = Resolved, shutdownTimeout = None, closeHandler = False,
         terminating = False, kills = 0, terminateCalls = 0\<rparr>"
    by (rule shutdown_not_local)
next
  fix s :: shutdown and es
  assume "promise s = Resolved"
  then show "promise (run c s es) = Resolved" by (rule run_resolved)
qed

theorem shutdownNeutrino_bounded_witness:
  "promise (run runningLocal (shutdownNeutrino runningLocal)
      [TerminateResolved, TimeoutElapsed]) = Resolved \<and>
   kills (run runningLocal (shutdownNeutrino runningLocal)
      [TerminateResolved, TimeoutElapsed]) = 1 \<and>
   promise (run runningLocal (shutdownNeutrino runningLocal)
      [TerminateResolved, NeutrinoClose, TimeoutElapsed, TerminateRejected]) = Resolved \<and>
   shutdownNeutrino (runningLocal\<lparr>lightning := None\<rparr>) =
     \<lparr>promise = Resolved, shutdownTimeout = None, closeHandler = False,
      terminating = False, kills = 1, terminateCalls = 0\<rparr> \<and>
   shutdownNeutrino runningRemoteConfig =
     \<lparr>promise = Resolved, shutdownTimeout = None, closeHandler = False,
      terminating = False, kills = 0, terminateCalls = 0\<rparr>"
proof -
  have g: "lndConfig_type runningLocal = ''local'' \<and> neutrino runningLocal \<and>
      lightning runningLocal = Some True"
    by (simp add: runningLocal_def)
  have u: "lndConfig_type (runningLocal\<lparr>lightning := None\<rparr>) = ''local'' \<and>
      neutrino (runningLocal\<lparr>lightning := None\<rparr>) \<and>
      lightning (runningLocal\<lparr>lightning := None\<rparr>) \<noteq> Some True"
    by (simp add: runningLocal_def)
  have r: "lndConfig_type runningRemoteConfig \<noteq> ''local''"
    by (simp add: runningRemoteConfig_def runningLocal_def)
  have q: "set [TerminateResolved] \<subseteq> {TerminateResolved}" by simp
  note t = shutdownNeutrino_bounded [of runningLocal, THEN conjunct1, THEN mp, OF g]
  from t [THEN conjunct2, THEN conjunct2, THEN conjunct2, THEN spec, THEN mp, OF q]
  have a: "promise (run runningLocal (shutdownNeutrino runningLocal)
        ([TerminateResolved] @ [TimeoutElapsed])) = Resolved \<and>
      kills (run runningLocal (shutdownNeutrino runningLocal)
        ([TerminateResolved] @ [TimeoutElapsed])) = 1"
    by (elim conjE) (intro conjI)
  from t [THEN conjunct2, THEN conjunct2, THEN conjunct1, THEN spec, THEN spec,
      of "[TerminateResolved, NeutrinoClose]" "[TerminateRejected]"]
  have b: "promise (run runningLocal (shutdownNeutrino runningLocal)
      ([TerminateResolved, NeutrinoClose] @ TimeoutElapsed # [TerminateRejected])) = Resolved" .
  from shutdownNeutrino_bounded [of "runningLocal\<lparr>lightning := None\<rparr>",
      THEN conjunct2, THEN conjunct1, THEN mp, OF u]
  have c: "shutdownNeutrino (runningLocal\<lparr>lightning := None\<rparr>) =
     \<lparr>promise = Resolved, shutdownTimeout = None, closeHandler = False,
      terminating = False, kills = 1, terminateCalls = 0\<rparr>" .
  from shutdownNeutrino_bounded [of runningRemoteConfig,
      THEN conjunct2, THEN conjunct2, THEN conjunct1, THEN mp, OF r]
  have d: "shutdownNeutrino runningRemoteConfig =
     \<lparr>promise = Resolved, shutdownTimeout = None, closeHandler = False,
      terminating = False, kills = 0, terminateCalls = 0\<rparr>" .
  from a b c d show ?thesis by simp
qed

text \<open>
  The claim C2 as stated fails for a configuration that is not local: with a lightning
  connection that can terminate no \<open>terminate()\<close> is issued, and without one the process is
  not killed.
\<close>

theorem shutdownNeutrino_every_invocation_counterexample:
  "lightning runningRemoteConfig = Some True \<and> neutrino runningRemoteConfig \<and>
   terminateCalls (shutdownNeutrino runningRemoteConfig) = 0 \<and>
   kills (shutdownNeutrino runningRemoteConfig) = 0 \<and>
   lightning (runningRemoteConfig\<lparr>lightning := None\<rparr>) = None \<and>
   kills (shutdownNeutrino (runningRemoteConfig\<lparr>lightning := None\<rparr>)) = 0"
  by (simp add: runningRemoteConfig_def runningLocal_def shutdownNeutrino_def)

section \<open>Properties of Number arithmetic\<close>

lemma pow2_powi: "pow2 e = 2 powi e"
  by (simp add: pow2_def power_int_def inverse_eq_divide power_one_over)

lemma pow2_pos [simp]: "0 < pow2 e"
  by (simp add: pow2_def)

lemma pow2_add: "pow2 (a + b) = pow2 a * pow2 b"
  by (simp add: pow2_powi power_int_add)

lemma pow2_mono: "a \<le> b \<Longrightarrow> pow2 a \<le> pow2 b"
  by (simp add: pow2_powi power_int_increasing)

lemma pow2_nat: "0 \<le> e \<Longrightarrow> pow2 e = 2 ^ nat e"
  by (simp add: pow2_def)

lemma recip_le: "0 < x \<Longrightarrow> 0 < c \<Longrightarrow> 1 / x \<le> c \<Longrightarrow> 1 / c \<le> (x::rat)"
  by (simp add: pos_divide_le_eq mult.commute)

lemma recip_less: "0 < x \<Longrightarrow> 0 < c \<Longrightarrow> c < 1 / x \<Longrightarrow> (x::rat) < 1 / c"
  by (simp add: pos_less_divide_eq mult.commute)

lemma binade_bounds_ge1:
  assumes "1 \<le> x"
  shows "pow2 (binade x) \<le> x \<and> x < pow2 (binade x + 1)"
proof -
  define n where "n = \<lfloor>x\<rfloor>"
  from assms have n1: "1 \<le> n" by (simp add: n_def le_floor_iff)
  then have n0: "0 < n" by simp
  from bitlen_bounds [OF n0] have lo: "2 ^ nat (bitlen n - 1) \<le> n" and hi: "n < 2 ^ nat (bitlen n)"
    by simp_all
  have bl: "1 \<le> bitlen n" using n0 by (simp add: bitlen_alt_def)
  have b: "binade x = bitlen n - 1" using assms by (simp add: binade_def n_def)
  have "pow2 (binade x) = of_int (2 ^ nat (bitlen n - 1))"
    using bl by (simp add: b pow2_nat)
  also have "\<dots> \<le> of_int n" using lo by (simp only: of_int_le_iff)
  also have "\<dots> \<le> x" by (simp add: n_def)
  finally have 1: "pow2 (binade x) \<le> x" .
  from hi have h: "n + 1 \<le> 2 ^ nat (bitlen n)" by simp
  have "x < of_int (n + 1)" unfolding n_def by linarith
  also have "\<dots> \<le> of_int (2 ^ nat (bitlen n))" using h by (simp only: of_int_le_iff)
  also have "\<dots> = pow2 (binade x + 1)" using bl by (simp add: b pow2_nat)
  finally have 2: "x < pow2 (binade x + 1)" .
  from 1 2 show ?thesis ..
qed

lemma binade_bounds_lt1:
  assumes "0 < x" and "x < 1"
  shows "pow2 (binade x) \<le> x \<and> x < pow2 (binade x + 1)"
proof -
  define y where "y = 1 / x"
  define m where "m = \<lceil>y\<rceil> - 1"
  from assms have y1: "1 < y" by (simp add: y_def)
  then have m1: "1 \<le> m" unfolding m_def by linarith
  then have m0: "0 < m" by simp
  define k where "k = bitlen m"
  from bitlen_bounds [OF m0] have lo: "2 ^ nat (k - 1) \<le> m" and hi: "m < 2 ^ nat k"
    by (simp_all add: k_def)
  have k1: "1 \<le> k" using m0 by (simp add: k_def bitlen_alt_def)
  have b: "binade x = - k" using assms by (simp add: binade_def k_def m_def y_def)
  have my: "of_int m < y" unfolding m_def by linarith
  have ym: "y \<le> of_int (m + 1)" unfolding m_def by simp
  from hi have "m + 1 \<le> 2 ^ nat k" by simp
  then have "(of_int (m + 1) :: rat) \<le> of_int (2 ^ nat k)" by (simp only: of_int_le_iff)
  with ym have "y \<le> of_int (2 ^ nat k)" by (rule order_trans)
  then have "1 / x \<le> 2 ^ nat k" by (simp add: y_def)
  with assms(1) have "1 / 2 ^ nat k \<le> x"
    by (simp add: recip_le)
  then have 1: "pow2 (binade x) \<le> x"
    using k1 by (simp add: b pow2_def)
  have "(2::rat) ^ nat (k - 1) = of_int (2 ^ nat (k - 1))" by simp
  also have "\<dots> \<le> of_int m" using lo by (simp only: of_int_le_iff)
  also have "\<dots> < y" by (rule my)
  finally have "2 ^ nat (k - 1) < 1 / x" by (simp add: y_def)
  with assms(1) have x: "x < 1 / 2 ^ nat (k - 1)"
    by (simp add: recip_less)
  have "pow2 (binade x + 1) = 1 / 2 ^ nat (k - 1)"
  proof (cases "k = 1")
    case True
    then show ?thesis by (simp add: b pow2_def)
  next
    case False
    with k1 have "1 < k" by simp
    then have "nat (- (1 - k)) = nat (k - 1)" by simp
    with \<open>1 < k\<close> show ?thesis by (simp add: b pow2_def)
  qed
  with x have 2: "x < pow2 (binade x + 1)" by simp
  from 1 2 show ?thesis ..
qed

lemma binade_bounds:
  assumes "0 < x"
  shows "pow2 (binade x) \<le> x \<and> x < pow2 (binade x + 1)"
  using assms binade_bounds_ge1 [of x] binade_bounds_lt1 [of x] by (cases "1 \<le> x") simp_all

lemma binade_mono:
  assumes "0 < x" and "x \<le> y"
  shows "binade x \<le> binade y"
proof (rule ccontr)
  assume "\<not> binade x \<le> binade y"
  then have "binade y + 1 \<le> binade x" by simp
  then have "pow2 (binade y + 1) \<le> pow2 (binade x)" by (rule pow2_mono)
  also have "\<dots> \<le> x" using binade_bounds [OF assms(1)] by simp
  also have "\<dots> \<le> y" by (rule assms(2))
  finally have "pow2 (binade y + 1) \<le> y" .
  moreover from assms have "0 < y" by simp
  then have "y < pow2 (binade y + 1)" using binade_bounds [of y] by simp
  ultimately show False by simp
qed

lemma roundTiesToEven_bounds: "\<lfloor>x\<rfloor> \<le> roundTiesToEven x \<and> roundTiesToEven x \<le> \<lfloor>x\<rfloor> + 1"
  by (simp add: roundTiesToEven_def Let_def)

lemma roundTiesToEven_of_int [simp]: "roundTiesToEven (of_int n) = n"
  by (simp add: roundTiesToEven_def Let_def)

lemma roundTiesToEven_mono:
  assumes "x \<le> y"
  shows "roundTiesToEven x \<le> roundTiesToEven y"
proof (cases "\<lfloor>x\<rfloor> = \<lfloor>y\<rfloor>")
  case False
  with assms have "\<lfloor>x\<rfloor> < \<lfloor>y\<rfloor>" using floor_mono [OF assms] by simp
  then have "\<lfloor>x\<rfloor> + 1 \<le> \<lfloor>y\<rfloor>" by simp
  with roundTiesToEven_bounds [of x] roundTiesToEven_bounds [of y] show ?thesis by linarith
next
  case True
  with assms have "x - of_int \<lfloor>x\<rfloor> \<le> y - of_int \<lfloor>y\<rfloor>" by simp
  with True show ?thesis
    by (simp add: roundTiesToEven_def Let_def)
qed

lemma roundTiesToEven_ge: "of_int n \<le> x \<Longrightarrow> n \<le> roundTiesToEven x"
  using roundTiesToEven_mono [of "of_int n" x] by simp

lemma roundTiesToEven_le: "x \<le> of_int n \<Longrightarrow> roundTiesToEven x \<le> n"
  using roundTiesToEven_mono [of x "of_int n"] by simp

lemma ulp_pos [simp]: "0 < ulp x"
  by (simp add: ulp_def)

lemma nearest_nonneg: "0 \<le> x \<Longrightarrow> 0 \<le> nearest x"
proof -
  assume "0 \<le> x"
  then have "of_int 0 \<le> x / ulp x" using ulp_pos [of x] by (simp add: divide_nonneg_pos)
  then have "0 \<le> roundTiesToEven (x / ulp x)" by (rule roundTiesToEven_ge)
  then have "0 \<le> (of_int (roundTiesToEven (x / ulp x)) :: rat)" by simp
  then have "0 \<le> of_int (roundTiesToEven (x / ulp x)) * ulp x"
    using ulp_pos [of x] by (simp add: mult_nonneg_nonneg less_imp_le)
  then show ?thesis by (simp add: nearest_def)
qed

lemma pow2_53: "pow2 (e + 1) = 2 ^ 53 * pow2 (e - 52)"
proof -
  have "e + 1 = 53 + (e - 52)" by simp
  then have "pow2 (e + 1) = pow2 (53 + (e - 52))" by (rule arg_cong)
  also have "\<dots> = pow2 53 * pow2 (e - 52)" by (rule pow2_add)
  also have "pow2 53 = 2 ^ 53" by (simp add: pow2_def)
  finally show ?thesis .
qed

lemma pow2_52: "pow2 e = 2 ^ 52 * pow2 (e - 52)"
proof -
  have "e = 52 + (e - 52)" by simp
  then have "pow2 e = pow2 (52 + (e - 52))" by (rule arg_cong)
  also have "\<dots> = pow2 52 * pow2 (e - 52)" by (rule pow2_add)
  also have "pow2 52 = 2 ^ 52" by (simp add: pow2_def)
  finally show ?thesis .
qed

lemma nearest_le_top:
  assumes "0 < x" and "x \<le> pow2 (e + 1)" and "max (binade x) (- 1022) \<le> e"
  shows "nearest x \<le> pow2 (e + 1)"
proof -
  define ex where "ex = max (binade x) (- 1022)"
  define u where "u = pow2 (ex - 52)"
  have u: "0 < u" by (simp add: u_def)
  have ux: "ulp x = u" by (simp add: ulp_def u_def ex_def)
  have "x < pow2 (binade x + 1)" using binade_bounds [OF assms(1)] by simp
  also have "\<dots> \<le> pow2 (ex + 1)" by (rule pow2_mono) (simp add: ex_def)
  also have "\<dots> = 2 ^ 53 * u" unfolding u_def by (rule pow2_53)
  finally have "x / u \<le> 2 ^ 53" using u by (simp add: pos_divide_le_eq)
  then have "x / u \<le> of_int (2 ^ 53)" by simp
  then have "roundTiesToEven (x / u) \<le> 2 ^ 53" by (rule roundTiesToEven_le)
  then have "(of_int (roundTiesToEven (x / u)) :: rat) \<le> of_int (2 ^ 53)"
    by (simp only: of_int_le_iff)
  then have "of_int (roundTiesToEven (x / u)) * u \<le> 2 ^ 53 * u"
    using u by (simp add: mult_right_mono)
  also have "2 ^ 53 * u = pow2 (ex + 1)" unfolding u_def by (rule pow2_53 [symmetric])
  also have "\<dots> \<le> pow2 (e + 1)" by (rule pow2_mono) (use assms(3) in \<open>simp add: ex_def\<close>)
  finally show ?thesis using assms(1) by (simp add: nearest_def ux)
qed

lemma nearest_ge_bottom:
  assumes "0 < y" and "- 1022 \<le> binade y"
  shows "pow2 (binade y) \<le> nearest y"
proof -
  define u where "u = pow2 (binade y - 52)"
  have u: "0 < u" by (simp add: u_def)
  have uy: "ulp y = u" using assms(2) by (simp add: ulp_def u_def max_def)
  have "2 ^ 52 * u = pow2 (binade y)" unfolding u_def by (rule pow2_52 [symmetric])
  also have "\<dots> \<le> y" using binade_bounds [OF assms(1)] by simp
  finally have "2 ^ 52 \<le> y / u" using u by (simp add: pos_le_divide_eq)
  then have "of_int (2 ^ 52) \<le> y / u" by simp
  then have "2 ^ 52 \<le> roundTiesToEven (y / u)" by (rule roundTiesToEven_ge)
  then have "(of_int (2 ^ 52) :: rat) \<le> of_int (roundTiesToEven (y / u))"
    by (simp only: of_int_le_iff)
  then have "2 ^ 52 * u \<le> of_int (roundTiesToEven (y / u)) * u"
    using u by (simp add: mult_right_mono)
  moreover have "2 ^ 52 * u = pow2 (binade y)" unfolding u_def by (rule pow2_52 [symmetric])
  ultimately show ?thesis using assms(1) by (simp add: nearest_def uy)
qed

lemma nearest_mono:
  assumes "0 \<le> x" and "x \<le> y"
  shows "nearest x \<le> nearest y"
proof (cases "x = 0")
  case True
  from assms have "0 \<le> y" by simp
  then show ?thesis using True nearest_nonneg [of y] by (simp add: nearest_def)
next
  case False
  with assms have x: "0 < x" and y: "0 < y" by simp_all
  define ex where "ex = max (binade x) (- 1022)"
  define ey where "ey = max (binade y) (- 1022)"
  have le: "ex \<le> ey" using binade_mono [OF x assms(2)] by (simp add: ex_def ey_def)
  show ?thesis
  proof (cases "ex = ey")
    case True
    then have u: "ulp x = ulp y" by (simp add: ulp_def ex_def ey_def)
    have "x / ulp y \<le> y / ulp y"
      using assms(2) by (rule divide_right_mono) (simp add: less_imp_le)
    then have "roundTiesToEven (x / ulp y) \<le> roundTiesToEven (y / ulp y)"
      by (rule roundTiesToEven_mono)
    then have "(of_int (roundTiesToEven (x / ulp y)) :: rat) \<le> of_int (roundTiesToEven (y / ulp y))"
      by (simp only: of_int_le_iff)
    then have "of_int (roundTiesToEven (x / ulp y)) * ulp y
        \<le> of_int (roundTiesToEven (y / ulp y)) * ulp y"
      by (simp add: mult_right_mono)
    then show ?thesis using x y by (simp add: nearest_def u)
  next
    case False
    with le have lt: "ex < ey" by simp
    then have bey: "binade y = ey" and r: "- 1022 \<le> binade y"
      by (simp_all add: ex_def ey_def max_def split: if_splits)
    have "x < pow2 (binade x + 1)" using binade_bounds [OF x] by simp
    also have "\<dots> \<le> pow2 (ex + 1)" by (rule pow2_mono) (simp add: ex_def)
    finally have "x \<le> pow2 (ex + 1)" by simp
    then have "nearest x \<le> pow2 (ex + 1)"
      by (rule nearest_le_top [OF x]) (simp add: ex_def)
    also have "\<dots> \<le> pow2 ey" by (rule pow2_mono) (use lt in simp)
    also have "\<dots> \<le> nearest y" using nearest_ge_bottom [OF y r] by (simp add: bey)
    finally show ?thesis .
  qed
qed

section \<open>Properties of syncPercentage\<close>

lemma nearest_2: "nearest 2 = 2"
  by code_simp

lemma nearest_2_53: "nearest (2 ^ 53) = 2 ^ 53"
  by code_simp

lemma nearest_2_54: "nearest (2 ^ 54) = 2 ^ 54"
  by code_simp

lemma nearest_100_2_53: "nearest (2 ^ 53 * 100) = 2 ^ 53 * 100"
  by code_simp

lemma toNumber_Fin: "nearest x < 2 ^ 1024 \<Longrightarrow> toNumber x = Fin (nearest x)"
  by (simp add: toNumber_def)

lemma nearest_le: "0 \<le> x \<Longrightarrow> x \<le> k \<Longrightarrow> nearest k = k \<Longrightarrow> nearest x \<le> k"
  using nearest_mono [of x k] by simp

lemma syncPercentage_stages:
  assumes "nearest (L + C) = s" and "s < 2 ^ 1024"
    and "nearest (B * 2) = d" and "d \<noteq> 0" and "d < 2 ^ 1024"
    and "nearest (s / d) = q" and "q < 2 ^ 1024"
    and "nearest (q * 100) = r" and "r < 2 ^ 1024"
  shows "syncPercentage (Fin B) (Fin L) (Fin C) = Some (parseInt10 (Fin (of_int \<lfloor>r\<rfloor>)))"
proof -
  have plus: "plus_number (Fin L) (Fin C) = Fin s"
    using assms(1,2) by (simp add: toNumber_Fin)
  have times: "times_number (Fin B) (Fin 2) = Fin d"
    using assms(3,5) by (simp add: toNumber_Fin)
  have div: "divide_number (Fin s) (Fin d) = Fin q"
    using assms(4,6,7) by (simp add: toNumber_Fin)
  have mul: "times_number (Fin q) (Fin 100) = Fin r"
    using assms(8,9) by (simp add: toNumber_Fin)
  show ?thesis
    by (simp add: syncPercentage_def plus times div mul Let_def
        del: plus_number.simps times_number.simps divide_number.simps parseInt10.simps)
qed

lemma parseInt10_small:
  "0 \<le> n \<Longrightarrow> n < 10 ^ 21 \<Longrightarrow> parseInt10 (Fin (of_int n)) = Fin (of_int n)"
  by (simp add: Let_def)

lemma syncPercentage_safe:
  assumes B: "1 \<le> B" "B \<le> 2 ^ 53" and L: "0 \<le> L" "L \<le> 2 ^ 53" and C: "0 \<le> C" "C \<le> 2 ^ 53"
  shows "syncPercentage (Fin B) (Fin L) (Fin C) =
    Some (Fin (of_int \<lfloor>nearest (nearest (nearest (L + C) / nearest (B * 2)) * 100)\<rfloor>))"
proof -
  define s where "s = nearest (L + C)"
  define d where "d = nearest (B * 2)"
  define q where "q = nearest (s / d)"
  define r where "r = nearest (q * 100)"
  have big: "(2::rat) ^ 54 < 2 ^ 1024" "(2::rat) ^ 53 * 100 < 2 ^ 1024" "(2::rat) ^ 53 < 2 ^ 1024"
    by simp_all
  have s0: "0 \<le> s" unfolding s_def using L C by (intro nearest_nonneg) simp
  have s1: "s \<le> 2 ^ 54" unfolding s_def using L C by (intro nearest_le nearest_2_54) simp_all
  have d1: "d \<le> 2 ^ 54" unfolding d_def using B by (intro nearest_le nearest_2_54) simp_all
  have "nearest 2 \<le> nearest (B * 2)" using B by (intro nearest_mono) simp_all
  then have d2: "2 \<le> d" by (simp add: d_def nearest_2)
  have sd0: "0 \<le> s / d" using s0 d2 by simp
  have "s / d \<le> s / 2" using s0 d2 by (intro divide_left_mono) simp_all
  also have "\<dots> \<le> 2 ^ 53" using s1 by simp
  finally have sd1: "s / d \<le> 2 ^ 53" .
  have q0: "0 \<le> q" unfolding q_def using sd0 by (rule nearest_nonneg)
  have q1: "q \<le> 2 ^ 53" unfolding q_def using sd0 sd1 by (intro nearest_le nearest_2_53)
  have r0: "0 \<le> r" unfolding r_def using q0 by (intro nearest_nonneg) simp
  have r1: "r \<le> 2 ^ 53 * 100" unfolding r_def using q0 q1
    by (intro nearest_le nearest_100_2_53) simp_all
  have "\<lfloor>r\<rfloor> \<le> \<lfloor>(2::rat) ^ 53 * 100\<rfloor>" using r1 by (rule floor_mono)
  also have "\<lfloor>(2::rat) ^ 53 * 100\<rfloor> = 2 ^ 53 * 100" by simp
  also have "\<dots> < (10::int) ^ 21" by simp
  finally have small: "\<lfloor>r\<rfloor> < 10 ^ 21" .
  from r0 have pos: "0 \<le> \<lfloor>r\<rfloor>" by simp
  have "syncPercentage (Fin B) (Fin L) (Fin C) = Some (parseInt10 (Fin (of_int \<lfloor>r\<rfloor>)))"
  proof (rule syncPercentage_stages)
    show "nearest (L + C) = s" by (simp add: s_def)
    show "s < 2 ^ 1024" using s1 big(1) by (rule le_less_trans)
    show "nearest (B * 2) = d" by (simp add: d_def)
    show "d \<noteq> 0" using d2 by simp
    show "d < 2 ^ 1024" using d1 big(1) by (rule le_less_trans)
    show "nearest (s / d) = q" by (simp add: q_def)
    show "q < 2 ^ 1024" using q1 big(3) by (rule le_less_trans)
    show "nearest (q * 100) = r" by (simp add: r_def)
    show "r < 2 ^ 1024" using r1 big(2) by (rule le_less_trans)
  qed
  also have "parseInt10 (Fin (of_int \<lfloor>r\<rfloor>)) = Fin (of_int \<lfloor>r\<rfloor>)"
    using pos small by (rule parseInt10_small)
  finally show ?thesis by (simp add: r_def q_def s_def d_def)
qed

lemma percent_mono:
  assumes "1 \<le> B" and "0 \<le> x" and "x \<le> y"
  shows "\<lfloor>nearest (nearest (nearest x / nearest (B * 2)) * 100)\<rfloor>
       \<le> \<lfloor>nearest (nearest (nearest y / nearest (B * 2)) * 100)\<rfloor>"
proof -
  define d where "d = nearest (B * 2)"
  have "nearest 2 \<le> nearest (B * 2)" using assms(1) by (intro nearest_mono) simp_all
  then have d: "0 < d" by (simp add: d_def nearest_2)
  have 1: "nearest x \<le> nearest y" using assms(2,3) by (rule nearest_mono)
  have 0: "0 \<le> nearest x" using assms(2) by (rule nearest_nonneg)
  have 2: "nearest x / d \<le> nearest y / d"
    using 1 by (rule divide_right_mono) (use d in simp)
  have 3: "0 \<le> nearest x / d" using 0 d by simp
  have 4: "nearest (nearest x / d) \<le> nearest (nearest y / d)" using 3 2 by (rule nearest_mono)
  have 5: "0 \<le> nearest (nearest x / d)" using 3 by (rule nearest_nonneg)
  have "nearest (nearest (nearest x / d) * 100) \<le> nearest (nearest (nearest y / d) * 100)"
    using 4 5 by (intro nearest_mono) simp_all
  then show ?thesis unfolding d_def by (rule floor_mono)
qed

lemma chain_29: "\<lfloor>nearest (nearest (nearest 29 / nearest 100) * 100)\<rfloor> = 28"
  by code_simp

lemma chain_290000:
  "\<lfloor>nearest (nearest (nearest 290000 / nearest 1000000) * 100)\<rfloor> = 28"
  by code_simp

lemma syncPercentage_zero_reference:
  "syncPercentage (Fin 0) (Fin (of_nat l)) (Fin (of_nat c)) = None"
proof -
  have z: "times_number (Fin 0) (Fin 2) = Fin 0"
    by (simp add: toNumber_def nearest_def)
  obtain s where s: "s = plus_number (Fin (of_nat l)) (Fin (of_nat c))" by simp
  have "s \<noteq> NaN" by (simp add: s toNumber_def)
  then have "divide_number s (Fin 0) = PosInf \<or> divide_number s (Fin 0) = NaN"
    by (cases s) simp_all
  then have "times_number (divide_number s (Fin 0)) (Fin 100) = PosInf \<or>
      times_number (divide_number s (Fin 0)) (Fin 100) = NaN"
    by auto
  then have "Math_floor (times_number (divide_number s (Fin 0)) (Fin 100)) = PosInf \<or>
      Math_floor (times_number (divide_number s (Fin 0)) (Fin 100)) = NaN"
    by auto
  then show ?thesis
    unfolding syncPercentage_def z s [symmetric] Let_def by auto
qed

text \<open>
  C1. With a reference height of 0 the selector returns \<open>undefined\<close>, whatever the two
  other heights are. With a positive reference height it does not always return
  \<open>floor ((l + c) / (2 b) * 100)\<close>: at \<open>b = 50\<close>, \<open>l = 20\<close>, \<open>c = 9\<close>, and at \<open>b = 500000\<close>,
  \<open>l = 290000\<close>, \<open>c = 0\<close>, the quotient is the double next below 0.29, its product with
  100 is the double next below 29, and the selector returns 28 where the formula gives 29.
\<close>

theorem syncPercentage_rounds_below:
  "syncPercentage (Fin 0) (Fin (of_nat l)) (Fin (of_nat c)) = None \<and>
   syncPercentage (Fin 50) (Fin 20) (Fin 9) = Some (Fin 28) \<and>
   syncPercentage (Fin 500000) (Fin 290000) (Fin 0) = Some (Fin 28) \<and>
   \<lfloor>(20 + 9) / (2 * 50) * (100 :: rat)\<rfloor> = 29 \<and>
   \<lfloor>(290000 + 0) / (2 * 500000) * (100 :: rat)\<rfloor> = 29"
proof (intro conjI)
  show "syncPercentage (Fin 0) (Fin (of_nat l)) (Fin (of_nat c)) = None"
    by (rule syncPercentage_zero_reference)
  show "syncPercentage (Fin 50) (Fin 20) (Fin 9) = Some (Fin 28)"
    by (subst syncPercentage_safe) (simp_all add: chain_29)
  show "syncPercentage (Fin 500000) (Fin 290000) (Fin 0) = Some (Fin 28)"
    by (subst syncPercentage_safe) (simp_all add: chain_290000)
  show "\<lfloor>(20 + 9) / (2 * 50) * (100 :: rat)\<rfloor> = 29" by simp
  show "\<lfloor>(290000 + 0) / (2 * 500000) * (100 :: rat)\<rfloor> = 29" by simp
qed

lemma stages_1e19:
  "nearest (10 ^ 19 + 0) = 10 ^ 19" "nearest (1 * 2) = 2"
  "nearest (10 ^ 19 / 2) = 5 * 10 ^ 18" "nearest (5 * 10 ^ 18 * 100) = 5 * 10 ^ 20"
  by code_simp+

lemma stages_2e19:
  "nearest (2 * 10 ^ 19 + 0) = 2 * 10 ^ 19"
  "nearest (2 * 10 ^ 19 / 2) = 10 ^ 19" "nearest (10 ^ 19 * 100) = 10 ^ 21"
  by code_simp+

lemma digits_1e21: "leadingDigit (shortestDigits (10 ^ 21)) = 1"
  by code_simp

lemma percentage_1e19: "syncPercentage (Fin 1) (Fin (10 ^ 19)) (Fin 0) = Some (Fin (5 * 10 ^ 20))"
proof -
  have "syncPercentage (Fin 1) (Fin (10 ^ 19)) (Fin 0)
      = Some (parseInt10 (Fin (of_int \<lfloor>5 * 10 ^ 20 :: rat\<rfloor>)))"
    by (rule syncPercentage_stages [OF stages_1e19(1) _ stages_1e19(2) _ _ stages_1e19(3) _
          stages_1e19(4)]) simp_all
  also have "\<lfloor>5 * 10 ^ 20 :: rat\<rfloor> = 5 * 10 ^ 20" by simp
  also have "parseInt10 (Fin (of_int (5 * 10 ^ 20))) = Fin (of_int (5 * 10 ^ 20))"
    by (rule parseInt10_small) simp_all
  finally show ?thesis by simp
qed

lemma percentage_2e19: "syncPercentage (Fin 1) (Fin (2 * 10 ^ 19)) (Fin 0) = Some (Fin 1)"
proof -
  have "syncPercentage (Fin 1) (Fin (2 * 10 ^ 19)) (Fin 0)
      = Some (parseInt10 (Fin (of_int \<lfloor>10 ^ 21 :: rat\<rfloor>)))"
    by (rule syncPercentage_stages [OF stages_2e19(1) _ stages_1e19(2) _ _ stages_2e19(2) _
          stages_2e19(3)]) simp_all
  also have "\<lfloor>10 ^ 21 :: rat\<rfloor> = 10 ^ 21" by simp
  also have "parseInt10 (Fin (of_int (10 ^ 21))) = Fin (of_int (leadingDigit (shortestDigits (10 ^ 21))))"
    by (simp add: Let_def)
  finally show ?thesis by (simp only: digits_1e21 of_int_1)
qed

text \<open>
  The claim C7 as stated, for all non-negative integers, fails where the percentage reaches
  \<open>10^21\<close>: \<open>parseInt\<close> reads the string \<open>1e+21\<close> and returns 1. With the reference height
  1, the node heights \<open>10^19\<close> and \<open>2 * 10^19\<close> give \<open>5 * 10^20\<close> and 1.
\<close>

theorem syncPercentage_monotone_counterexample:
  "syncPercentage (Fin 1) (Fin (10 ^ 19)) (Fin 0) = Some (Fin (5 * 10 ^ 20)) \<and>
   syncPercentage (Fin 1) (Fin (2 * 10 ^ 19)) (Fin 0) = Some (Fin 1) \<and>
   \<not> le_defined (syncPercentage (Fin 1) (Fin (10 ^ 19)) (Fin 0))
                  (syncPercentage (Fin 1) (Fin (2 * 10 ^ 19)) (Fin 0))"
  unfolding percentage_1e19 percentage_2e19 le_defined_def by simp

text \<open>
  C7, as the code has it. For heights below \<open>2^53\<close> (the integers a Number counts
  exactly) and a positive reference height, the percentage is defined, and it does not
  decrease when the node block height grows or when the cfilter height grows, the other
  heights fixed.
\<close>

theorem syncPercentage_monotone_safe:
  fixes b l l' c c' :: nat
  assumes "0 < b" "b < 2 ^ 53" "l \<le> l'" "l' < 2 ^ 53" "c \<le> c'" "c' < 2 ^ 53"
  shows "le_defined (syncPercentage (Fin (of_nat b)) (Fin (of_nat l)) (Fin (of_nat c)))
                    (syncPercentage (Fin (of_nat b)) (Fin (of_nat l')) (Fin (of_nat c))) \<and>
         le_defined (syncPercentage (Fin (of_nat b)) (Fin (of_nat l)) (Fin (of_nat c)))
                    (syncPercentage (Fin (of_nat b)) (Fin (of_nat l)) (Fin (of_nat c')))"
proof -
  let ?B = "of_nat b :: rat" and ?L = "of_nat l :: rat" and ?L' = "of_nat l' :: rat"
    and ?C = "of_nat c :: rat" and ?C' = "of_nat c' :: rat"
  have bound: "(of_nat n :: rat) \<le> 2 ^ 53" if "n < 2 ^ 53" for n :: nat
  proof -
    from that have "(of_nat n :: rat) < of_nat (2 ^ 53)" by (simp only: of_nat_less_iff)
    then show ?thesis by simp
  qed
  from assms have B: "1 \<le> ?B" "?B \<le> 2 ^ 53" by (simp_all add: bound)
  from assms have L: "0 \<le> ?L" "?L \<le> 2 ^ 53" by (simp_all add: bound)
  from assms have L': "0 \<le> ?L'" "?L' \<le> 2 ^ 53" by (simp_all add: bound)
  from assms have C: "0 \<le> ?C" "?C \<le> 2 ^ 53" by (simp_all add: bound)
  from assms have C': "0 \<le> ?C'" "?C' \<le> 2 ^ 53" by (simp_all add: bound)
  have 1: "?L + ?C \<le> ?L' + ?C" using assms(3) by simp
  have 2: "?L + ?C \<le> ?L + ?C'" using assms(5) by simp
  have 0: "0 \<le> ?L + ?C" by simp
  show ?thesis
    unfolding syncPercentage_safe [OF B L C] syncPercentage_safe [OF B L' C]
      syncPercentage_safe [OF B L C']
    using percent_mono [OF B(1) 0 1] percent_mono [OF B(1) 0 2]
    by (simp add: le_defined_def)
qed

theorem syncPercentage_monotone_safe_witness:
  "le_defined (syncPercentage (Fin 1000) (Fin 500) (Fin 300))
              (syncPercentage (Fin 1000) (Fin 1000) (Fin 300)) \<and>
   le_defined (syncPercentage (Fin 1000) (Fin 500) (Fin 300))
              (syncPercentage (Fin 1000) (Fin 500) (Fin 1000))"
proof -
  have h: "(0::nat) < 1000" "(1000::nat) < 2 ^ 53" "(500::nat) \<le> 1000" "(300::nat) \<le> 1000"
    by simp_all
  from syncPercentage_monotone_safe [OF h(1) h(2) h(3) h(2) h(4) h(2)]
  show ?thesis by simp
qed

end
